theory Spec2Isabelle
  imports Main "HOL-Library.Sublist"
begin

section \<open>The Wan video model (image.pollinations.ai/src/models/wanVideoModel.ts)\<close>

text \<open>
  The module submits a video generation task to Alibaba DashScope, polls the task until it
  is finished and downloads the video. Its functions are asynchronous and talk to the
  outside: here every function returns its result (an error or a value) together with
  the list of the outside actions it performed, in order, and the answers of the outside
  are read from a record \<open>world\<close>. Debug logging (\<open>logOps\<close>, \<open>logError\<close>) changes
  no result and is left out.
\<close>

subsection \<open>Configuration\<close>

definition DASHSCOPE_API_BASE :: string where
  "DASHSCOPE_API_BASE = ''https://dashscope-intl.aliyuncs.com/api/v1''"

definition WAN_T2V_MODEL :: string where
  "WAN_T2V_MODEL = ''wan2.6-t2v''"

definition WAN_I2V_MODEL :: string where
  "WAN_I2V_MODEL = ''wan2.6-i2v-flash''"

definition MIN_DURATION_SECONDS :: int where
  "MIN_DURATION_SECONDS = 2"

definition MAX_DURATION_SECONDS :: int where
  "MAX_DURATION_SECONDS = 15"

definition DEFAULT_DURATION_SECONDS :: int where
  "DEFAULT_DURATION_SECONDS = 5"

definition DEFAULT_RESOLUTION :: string where
  "DEFAULT_RESOLUTION = ''720P''"

definition POLL_MAX_ATTEMPTS :: nat where
  "POLL_MAX_ATTEMPTS = 60"

definition POLL_DELAY_MS :: nat where
  "POLL_DELAY_MS = 5000"

subsection \<open>JavaScript values\<close>

text \<open>
  An optional string field is a \<open>string option\<close>. A string is truthy when it is present
  and not empty; \<open>a || b\<close>, where \<open>b\<close> is a string that is always there, is \<open>a\<close> when
  \<open>a\<close> is truthy and \<open>b\<close> otherwise.
\<close>

definition truthy :: "string option \<Rightarrow> bool" where
  "truthy s = (case s of None \<Rightarrow> False | Some t \<Rightarrow> t \<noteq> [])"

definition or_str :: "string option \<Rightarrow> string \<Rightarrow> string" where
  "or_str a b = (if truthy a then the a else b)"

definition startsWith :: "string \<Rightarrow> string \<Rightarrow> bool" where
  "startsWith s p = (take (length p) s = p)"

text \<open>
  \<open>toUpperCase\<close> on the letters \<open>a\<close> to \<open>z\<close>; every other character is kept. The
  status words of the provider are ASCII. JavaScript also maps letters beyond ASCII (the
  long s U+017F to \<open>S\<close>, the dotless i U+0131 to \<open>I\<close>), which a byte string does not
  hold; the claims below are stated on the upper-cased status and hold for any such map.
\<close>

definition upper_char :: "char \<Rightarrow> char" where
  "upper_char c =
     (case map_of (zip ''abcdefghijklmnopqrstuvwxyz'' ''ABCDEFGHIJKLMNOPQRSTUVWXYZ'') c of
        None \<Rightarrow> c
      | Some C \<Rightarrow> C)"

definition toUpperCase :: "string \<Rightarrow> string" where
  "toUpperCase s = map upper_char s"

text \<open>The decimal numeral of a number, as a template string prints it.\<close>

definition digit_char :: "nat \<Rightarrow> char" where
  "digit_char d =
     (if d = 0 then CHR ''0'' else if d = 1 then CHR ''1'' else if d = 2 then CHR ''2''
      else if d = 3 then CHR ''3'' else if d = 4 then CHR ''4'' else if d = 5 then CHR ''5''
      else if d = 6 then CHR ''6'' else if d = 7 then CHR ''7'' else if d = 8 then CHR ''8''
      else CHR ''9'')"

function string_of_nat :: "nat \<Rightarrow> string" where
  "string_of_nat n =
     (if n < 10 then [digit_char n]
      else string_of_nat (n div 10) @ [digit_char (n mod 10)])"
  by pat_completeness auto
termination
  by (relation "measure id") auto

declare string_of_nat.simps [simp del]

subsection \<open>Errors\<close>

text \<open>
  \<open>HttpError message status\<close> is the error class of the service (httpError.ts), an
  error with an HTTP status. \<open>OtherError\<close> is any other exception: a rejected \<open>fetch\<close>
  (a network failure), a body that \<open>json()\<close> or \<open>arrayBuffer()\<close> cannot read.
\<close>

datatype error = HttpError string nat | OtherError string

subsection \<open>Data\<close>

text \<open>
  The interfaces of the module as records. Fields of different records that have the same
  name in the source carry a prefix here: \<open>p_\<close> for \<open>ImageParams\<close>, \<open>vp_\<close> for the
  prepared video parameters, \<open>tr_\<close> and \<open>to_\<close> for \<open>WanTaskResponse\<close> and its
  \<open>output\<close>, \<open>r_\<close> and \<open>out_\<close> for \<open>WanTaskResult\<close> and its \<open>output\<close>. A field that
  the JSON may lack is an \<open>option\<close>. The image of a request is one string or a list of
  strings.
\<close>

datatype image_field = Single string | Many "string list"

text \<open>The fields of \<open>ImageParams\<close> (params.ts) that the module reads.\<close>

record ImageParams =
  p_duration :: "int option"
  p_width :: "int option"
  p_height :: "int option"
  p_aspectRatio :: "string option"
  p_audio :: "bool option"
  p_image :: "image_field option"

text \<open>The object that \<open>prepareVideoParameters\<close> returns.\<close>

record VideoParameters =
  vp_durationSeconds :: int
  vp_resolution :: string
  vp_aspectRatio :: string
  vp_generateAudio :: bool

record DashScopeInput =
  prompt :: string
  img_url :: "string option"

record DashScopeParameters =
  resolution :: string
  duration :: int
  prompt_extend :: bool
  audio :: bool

record DashScopeRequest =
  model :: string
  input :: DashScopeInput
  parameters :: DashScopeParameters

record WanTaskResponseOutput =
  to_task_id :: "string option"
  to_task_status :: "string option"

record WanTaskResponse =
  tr_output :: "WanTaskResponseOutput option"
  tr_request_id :: "string option"
  tr_code :: "string option"
  tr_message :: "string option"

record WanTaskResultOutput =
  task_id :: "string option"
  task_status :: "string option"
  video_url :: "string option"
  out_code :: "string option"
  out_message :: "string option"

record WanTaskUsage =
  video_count :: "int option"
  video_duration :: "int option"

record WanTaskResult =
  r_output :: "WanTaskResultOutput option"
  r_request_id :: "string option"
  r_usage :: "WanTaskUsage option"
  r_code :: "string option"
  r_message :: "string option"

type_synonym Buffer = "char list"

record Usage =
  completionVideoSeconds :: int
  completionAudioSeconds :: int

record TrackingData =
  actualModel :: string
  tracked_usage :: Usage

record VideoGenerationResult =
  buffer :: Buffer
  mimeType :: string
  durationSeconds :: int
  trackingData :: TrackingData

subsection \<open>The outside\<close>

text \<open>
  A \<open>fetch\<close> either rejects (a network failure) or resolves to a response with a
  status, the body as \<open>text()\<close> reads it, and the body as \<open>json()\<close> or
  \<open>arrayBuffer()\<close> reads it; each of the two is \<open>Inl\<close> with the message of the
  exception when that call rejects.
\<close>

record 'a response =
  status :: nat
  body_text :: "string + string"
  body :: "string + 'a"

datatype 'a fetch_reply = Rejected string | Response "'a response"

definition ok :: "'a response \<Rightarrow> bool" where
  "ok r = (200 \<le> status r \<and> status r \<le> 299)"

text \<open>
  The world of one run. \<open>calculateVideoResolution\<close> (utils/videoResolution.ts) and
  \<open>downloadImageAsBase64\<close> (utils/imageDownload.ts) are helpers of the repository whose
  code is outside this module: what they return is taken from the world. The first
  returns the pair (aspectRatio, resolution), the second throws or returns the pair
  (base64, mimeType). \<open>fetchPoll n\<close> is the answer to the \<open>n\<close>-th poll request.
\<close>

record world =
  DASHSCOPE_API_KEY :: "string option"
  calculateVideoResolution ::
    "int option \<Rightarrow> int option \<Rightarrow> string option \<Rightarrow> string \<Rightarrow> string \<times> string"
  downloadImageAsBase64 :: "string \<Rightarrow> error + string \<times> string"
  fetchSubmit :: "string \<Rightarrow> string \<Rightarrow> DashScopeRequest \<Rightarrow> WanTaskResponse fetch_reply"
  fetchPoll :: "nat \<Rightarrow> string \<Rightarrow> string \<Rightarrow> WanTaskResult fetch_reply"
  fetchVideo :: "string \<Rightarrow> Buffer fetch_reply"

text \<open>
  The actions on the outside, in the order the run performs them:
  \<open>progress.updateBar(requestId, percent, phase, message)\<close>, the call of
  \<open>downloadImageAsBase64\<close>, the POST that creates the task (URL, API key, body), one poll
  GET (URL, API key), the GET of the video, and \<open>sleep\<close>.
\<close>

datatype event =
    UpdateBar string nat string string
  | DownloadImageAsBase64 string
  | FetchSubmit string string DashScopeRequest
  | FetchPoll string string
  | FetchVideo string
  | Sleep nat

subsection \<open>Request preparation\<close>

text \<open>
  \<open>safeParams.duration || DEFAULT_DURATION_SECONDS\<close>: an absent duration and the
  duration 0 are falsy and give the default. Durations are taken as whole seconds
  (\<open>int\<close>); \<open>Math.max\<close> and \<open>Math.min\<close> on them are \<open>max\<close> and \<open>min\<close>.
\<close>

definition rawDuration :: "ImageParams \<Rightarrow> int" where
  "rawDuration safeParams =
     (case p_duration safeParams of
        None \<Rightarrow> DEFAULT_DURATION_SECONDS
      | Some d \<Rightarrow> if d = 0 then DEFAULT_DURATION_SECONDS else d)"

definition prepareVideoParameters :: "world \<Rightarrow> ImageParams \<Rightarrow> VideoParameters" where
  "prepareVideoParameters w safeParams =
     (let durationSeconds =
            max MIN_DURATION_SECONDS (min MAX_DURATION_SECONDS (rawDuration safeParams));
          (aspectRatio, resolution) =
            calculateVideoResolution w (p_width safeParams) (p_height safeParams)
              (p_aspectRatio safeParams) DEFAULT_RESOLUTION
      in \<lparr> vp_durationSeconds = durationSeconds,
           vp_resolution = resolution,
           vp_aspectRatio = aspectRatio,
           vp_generateAudio = (p_audio safeParams \<noteq> Some False) \<rparr>)"

text \<open>
  \<open>extractFirstImage\<close>: an absent image and the empty string are falsy; of an array the
  element at index 0, which an empty array does not have.
\<close>

definition extractFirstImage :: "image_field option \<Rightarrow> string option" where
  "extractFirstImage img =
     (case img of
        None \<Rightarrow> None
      | Some (Single s) \<Rightarrow> if s = [] then None else Some s
      | Some (Many xs) \<Rightarrow> (case xs of [] \<Rightarrow> None | x # _ \<Rightarrow> Some x))"

text \<open>
  \<open>createVideoResult\<close>: \<open>actualDuration || videoParams.durationSeconds\<close>, where an
  actual duration of 0 is falsy.
\<close>

definition createVideoResult ::
  "Buffer \<Rightarrow> VideoParameters \<Rightarrow> int \<Rightarrow> VideoGenerationResult" where
  "createVideoResult buf videoParams actualDuration =
     (let duration = (if actualDuration \<noteq> 0 then actualDuration
                      else vp_durationSeconds videoParams)
      in \<lparr> buffer = buf,
           mimeType = ''video/mp4'',
           durationSeconds = vp_durationSeconds videoParams,
           trackingData = \<lparr> actualModel = ''wan'',
             tracked_usage = \<lparr> completionVideoSeconds = duration,
               completionAudioSeconds =
                 (if vp_generateAudio videoParams then duration else 0) \<rparr> \<rparr> \<rparr>)"

definition prepareImageUrl :: "string \<Rightarrow> error + string" where
  "prepareImageUrl imageUrl =
     (if startsWith imageUrl ''http://'' \<or> startsWith imageUrl ''https://''
         \<or> startsWith imageUrl ''data:''
      then Inr imageUrl
      else Inl (HttpError ''Invalid image URL: must be http/https or data URI'' 400))"

definition buildDashScopeRequest ::
  "string \<Rightarrow> string option \<Rightarrow> VideoParameters \<Rightarrow> error + DashScopeRequest" where
  "buildDashScopeRequest prompt_text imageUrl videoParams =
     (let params = \<lparr> resolution = vp_resolution videoParams,
                      duration = vp_durationSeconds videoParams,
                      prompt_extend = True,
                      audio = vp_generateAudio videoParams \<rparr>
      in if truthy imageUrl
         then (case prepareImageUrl (the imageUrl) of
                 Inl e \<Rightarrow> Inl e
               | Inr u \<Rightarrow> Inr \<lparr> model = WAN_I2V_MODEL,
                               input = \<lparr> prompt = prompt_text, img_url = Some u \<rparr>,
                               parameters = params \<rparr>)
         else Inr \<lparr> model = WAN_T2V_MODEL,
                    input = \<lparr> prompt = prompt_text, img_url = None \<rparr>,
                    parameters = params \<rparr>)"

subsection \<open>Download of the finished video\<close>

definition downloadVideo ::
  "world \<Rightarrow> string \<Rightarrow> string \<Rightarrow> (error + Buffer) \<times> event list" where
  "downloadVideo w videoUrl requestId =
     (let evs = [UpdateBar requestId 90 ''Processing'' ''Downloading video...'',
                 FetchVideo videoUrl]
      in case fetchVideo w videoUrl of
           Rejected e \<Rightarrow> (Inl (OtherError e), evs)
         | Response r \<Rightarrow>
             if \<not> ok r
             then (Inl (HttpError (''Failed to download video: '' @ string_of_nat (status r))
                          500), evs)
             else (case body r of
                     Inl e \<Rightarrow> (Inl (OtherError e), evs)
                   | Inr buf \<Rightarrow>
                       (Inr buf,
                        evs @ [UpdateBar requestId 95 ''Success''
                                 ''Video generation completed''])))"

subsection \<open>Task creation\<close>

definition createDashScopeTask ::
  "world \<Rightarrow> string \<Rightarrow> DashScopeRequest \<Rightarrow> string \<Rightarrow> (error + string) \<times> event list" where
  "createDashScopeTask w apiKey requestBody requestId =
     (let url = DASHSCOPE_API_BASE @ ''/services/aigc/video-generation/video-synthesis'';
          evs = [UpdateBar requestId 45 ''Processing'' ''Initiating video generation...'',
                 FetchSubmit url apiKey requestBody]
      in case fetchSubmit w url apiKey requestBody of
           Rejected e \<Rightarrow> (Inl (OtherError e), evs)
         | Response r \<Rightarrow>
             if \<not> ok r
             then (case body_text r of
                     Inl e \<Rightarrow> (Inl (OtherError e), evs)
                   | Inr errorText \<Rightarrow>
                       (Inl (HttpError (''DashScope API request failed: '' @ errorText)
                               (status r)), evs))
             else (case body r of
                     Inl e \<Rightarrow> (Inl (OtherError e), evs)
                   | Inr data \<Rightarrow>
                       if truthy (tr_code data)
                       then (Inl (HttpError
                                    (''DashScope API error: ''
                                       @ or_str (tr_message data) (the (tr_code data)))
                                    400), evs)
                       else (let taskId = (case tr_output data of
                                             None \<Rightarrow> None
                                           | Some out \<Rightarrow> to_task_id out)
                             in if \<not> truthy taskId
                                then (Inl (HttpError ''DashScope API did not return task ID''
                                             500), evs)
                                else (Inr (the taskId),
                                      evs @ [UpdateBar requestId 50 ''Processing''
                                        ''Generating video (this takes 1-5 minutes)...'']))))"

subsection \<open>Polling\<close>

text \<open>
  What \<open>pollTaskOnce\<close> returns: the object with \<open>status\<close> \<open>"pending"\<close>,
  \<open>"completed"\<close> (with \<open>videoUrl\<close> and \<open>videoDuration\<close>) or \<open>"failed"\<close> (with
  \<open>error\<close>).
\<close>

datatype poll_result = Pending | Completed string int | Failed string

text \<open>
  \<open>50 + Math.min(40, Math.floor(attempt * 0.7))\<close>. For the attempts 1 to 60 the
  floating-point product \<open>attempt * 0.7\<close> has the same floor as the exact
  \<open>7 * attempt / 10\<close>.
\<close>

definition progressPercent :: "nat \<Rightarrow> nat" where
  "progressPercent attempt = 50 + min 40 (attempt * 7 div 10)"

definition pollTaskOnce ::
  "world \<Rightarrow> string \<Rightarrow> string \<Rightarrow> nat \<Rightarrow> string \<Rightarrow> (error + poll_result) \<times> event list" where
  "pollTaskOnce w pollUrl apiKey attempt requestId =
     (let evs = [UpdateBar requestId (progressPercent attempt) ''Processing''
                   (''Generating video... ('' @ string_of_nat attempt @ ''/''
                      @ string_of_nat POLL_MAX_ATTEMPTS @ '')''),
                 FetchPoll pollUrl apiKey]
      in case fetchPoll w attempt pollUrl apiKey of
           Rejected e \<Rightarrow> (Inl (OtherError e), evs)
         | Response r \<Rightarrow>
             if \<not> ok r
             then (case body_text r of
                     Inl e \<Rightarrow> (Inl (OtherError e), evs)
                   | Inr errorText \<Rightarrow>
                       if 400 \<le> status r \<and> status r < 500
                       then (Inr (Failed (''DashScope poll failed (''
                                            @ string_of_nat (status r) @ ''): '' @ errorText)),
                             evs)
                       else (Inr Pending, evs))
             else (case body r of
                     Inl e \<Rightarrow> (Inl (OtherError e), evs)
                   | Inr data \<Rightarrow>
                       (let taskStatus =
                              map_option toUpperCase (Option.bind (r_output data) task_status)
                        in if taskStatus = Some ''SUCCEEDED''
                           then (if \<not> truthy (Option.bind (r_output data) video_url)
                                 then (Inl (HttpError ''No video URL in completed response''
                                              500), evs)
                                 else (Inr (Completed
                                              (the (Option.bind (r_output data) video_url))
                                              (case Option.bind (r_usage data) video_duration of
                                                 None \<Rightarrow> 0 | Some d \<Rightarrow> d)), evs))
                           else if taskStatus = Some ''FAILED''
                           then (Inr (Failed
                                        (or_str (Option.bind (r_output data) out_message)
                                           (or_str (r_message data)
                                              ''Video generation failed''))), evs)
                           else if taskStatus = Some ''CANCELED''
                           then (Inr (Failed ''Video generation was canceled''), evs)
                           else (Inr Pending, evs))))"

text \<open>
  The loop of \<open>pollWanTask\<close>, from attempt \<open>attempt\<close> on: a completed poll downloads the
  video and returns, a failed poll throws, a pending poll sleeps and goes on, and after
  the last attempt the loop ends with the time-out.
\<close>

function pollWanTask_loop ::
  "world \<Rightarrow> string \<Rightarrow> string \<Rightarrow> string \<Rightarrow> nat \<Rightarrow> (error + Buffer \<times> int) \<times> event list" where
  "pollWanTask_loop w pollUrl apiKey requestId attempt =
     (if attempt \<le> POLL_MAX_ATTEMPTS
      then (case pollTaskOnce w pollUrl apiKey attempt requestId of
              (Inl e, evs) \<Rightarrow> (Inl e, evs)
            | (Inr (Completed videoUrl videoDuration), evs) \<Rightarrow>
                (case downloadVideo w videoUrl requestId of
                   (Inl e, evs') \<Rightarrow> (Inl e, evs @ evs')
                 | (Inr buf, evs') \<Rightarrow> (Inr (buf, videoDuration), evs @ evs'))
            | (Inr (Failed err), evs) \<Rightarrow> (Inl (HttpError err 500), evs)
            | (Inr Pending, evs) \<Rightarrow>
                (case pollWanTask_loop w pollUrl apiKey requestId (attempt + 1) of
                   (res, evs') \<Rightarrow> (res, evs @ [Sleep POLL_DELAY_MS] @ evs')))
      else (Inl (HttpError ''Video generation timed out after 5 minutes'' 504), []))"
  by pat_completeness auto
termination
  by (relation "measure (\<lambda>(w, pollUrl, apiKey, requestId, attempt).
                  POLL_MAX_ATTEMPTS + 1 - attempt)") auto

declare pollWanTask_loop.simps [simp del]

definition pollWanTask ::
  "world \<Rightarrow> string \<Rightarrow> string \<Rightarrow> string \<Rightarrow> (error + Buffer \<times> int) \<times> event list" where
  "pollWanTask w taskId apiKey requestId =
     pollWanTask_loop w (DASHSCOPE_API_BASE @ ''/tasks/'' @ taskId) apiKey requestId 1"

subsection \<open>The whole run\<close>

definition callWanAlibabaAPI ::
  "world \<Rightarrow> string \<Rightarrow> ImageParams \<Rightarrow> string
     \<Rightarrow> (error + VideoGenerationResult) \<times> event list" where
  "callWanAlibabaAPI w prompt_text safeParams requestId =
     (if \<not> truthy (DASHSCOPE_API_KEY w)
      then (Inl (HttpError
                   ''DASHSCOPE_API_KEY environment variable is required for Wan model''
                   500), [])
      else
        (let apiKey = the (DASHSCOPE_API_KEY w);
             videoParams = prepareVideoParameters w safeParams;
             rawImageUrl = extractFirstImage (p_image safeParams);
             mode = (if truthy rawImageUrl then ''I2V'' else ''T2V'');
             ev0 = [UpdateBar requestId 35 ''Processing''
                      (''Starting video generation with Wan 2.6 ('' @ mode @ '')...'')];
             imageStep =
               (if truthy rawImageUrl
                then (case downloadImageAsBase64 w (the rawImageUrl) of
                        Inl e \<Rightarrow> (Inl e, [DownloadImageAsBase64 (the rawImageUrl)])
                      | Inr (base64, mime) \<Rightarrow>
                          (Inr (Some (''data:'' @ mime @ '';base64,'' @ base64)),
                           [DownloadImageAsBase64 (the rawImageUrl)]))
                else (Inr None, []))
         in case imageStep of
              (Inl e, ev1) \<Rightarrow> (Inl e, ev0 @ ev1)
            | (Inr imageDataUri, ev1) \<Rightarrow>
                (case buildDashScopeRequest prompt_text imageDataUri videoParams of
                   Inl e \<Rightarrow> (Inl e, ev0 @ ev1)
                 | Inr requestBody \<Rightarrow>
                     (case createDashScopeTask w apiKey requestBody requestId of
                        (Inl e, ev2) \<Rightarrow> (Inl e, ev0 @ ev1 @ ev2)
                      | (Inr taskId, ev2) \<Rightarrow>
                          (case pollWanTask w taskId apiKey requestId of
                             (Inl e, ev3) \<Rightarrow> (Inl e, ev0 @ ev1 @ ev2 @ ev3)
                           | (Inr (buf, videoDuration), ev3) \<Rightarrow>
                               (Inr (createVideoResult buf videoParams videoDuration),
                                ev0 @ ev1 @ ev2 @ ev3))))))"

definition callWanAPI ::
  "world \<Rightarrow> string \<Rightarrow> ImageParams \<Rightarrow> string
     \<Rightarrow> (error + VideoGenerationResult) \<times> event list" where
  "callWanAPI w prompt_text safeParams requestId =
     callWanAlibabaAPI w prompt_text safeParams requestId"

section \<open>Observations on a run\<close>

text \<open>
  The number of poll requests among the actions of a run, and the percentages that the
  progress bar was given, in order.
\<close>

fun is_poll :: "event \<Rightarrow> bool" where
  "is_poll (FetchPoll u k) = True"
| "is_poll _ = False"

definition poll_calls :: "event list \<Rightarrow> nat" where
  "poll_calls evs = length (filter is_poll evs)"

fun percentages :: "event list \<Rightarrow> nat list" where
  "percentages [] = []"
| "percentages (UpdateBar rid p ph m # es) = p # percentages es"
| "percentages (e # es) = percentages es"

text \<open>The actions that the poll loop may perform: neither the image download nor the
  task creation is among them.\<close>

fun loop_event :: "event \<Rightarrow> bool" where
  "loop_event (DownloadImageAsBase64 u) = False"
| "loop_event (FetchSubmit u k b) = False"
| "loop_event _ = True"

section \<open>Example worlds\<close>

text \<open>
  A poll answer with status 200 and a JSON body of the given task status, video URL,
  message and reported duration; a world in which the task runs for two polls and
  succeeds at the third, reporting 7 seconds; and variations of it.
\<close>

definition poll_reply :: "string \<Rightarrow> string option \<Rightarrow> string option \<Rightarrow> int option \<Rightarrow> WanTaskResult fetch_reply" where
  "poll_reply st url msg dur = Response \<lparr> status = 200, body_text = Inr [],
     body = Inr \<lparr> r_output = Some \<lparr> task_id = Some ''task-1'', task_status = Some st,
                     video_url = url, out_code = None, out_message = msg \<rparr>,
                   r_request_id = None,
                   r_usage = Some \<lparr> video_count = Some 1, video_duration = dur \<rparr>,
                   r_code = None, r_message = None \<rparr> \<rparr>"

definition example_world :: world where
  "example_world = \<lparr> DASHSCOPE_API_KEY = Some ''sk-test'',
     calculateVideoResolution = (\<lambda>w h a d. (''16:9'', d)),
     downloadImageAsBase64 = (\<lambda>u. Inr (''aGVsbG8='', ''image/png'')),
     fetchSubmit = (\<lambda>u k b. Response \<lparr> status = 200, body_text = Inr [],
        body = Inr \<lparr> tr_output = Some \<lparr> to_task_id = Some ''task-1'', to_task_status = Some ''PENDING'' \<rparr>,
                      tr_request_id = None, tr_code = None, tr_message = None \<rparr> \<rparr>),
     fetchPoll = (\<lambda>n u k. if n < 3 then poll_reply ''RUNNING'' None None None
                          else poll_reply ''SUCCEEDED'' (Some ''https://cdn.example/v.mp4'') None (Some 7)),
     fetchVideo = (\<lambda>u. Response \<lparr> status = 200, body_text = Inr [], body = Inr ''VIDEO'' \<rparr>) \<rparr>"

definition running_world :: world where
  "running_world = example_world \<lparr> fetchPoll := (\<lambda>n u k. poll_reply ''RUNNING'' None None None) \<rparr>"

definition no_url_world :: world where
  "no_url_world = example_world \<lparr> fetchPoll := (\<lambda>n u k.
      if n < 3 then poll_reply ''RUNNING'' None None None
      else poll_reply ''SUCCEEDED'' None None (Some 7)) \<rparr>"

definition failed_world :: world where
  "failed_world = example_world \<lparr> fetchPoll := (\<lambda>n u k.
      if n < 2 then poll_reply ''RUNNING'' None None None
      else poll_reply ''FAILED'' None (Some ''unsafe content'') None) \<rparr>"

definition canceled_world :: world where
  "canceled_world = example_world \<lparr> fetchPoll := (\<lambda>n u k.
      poll_reply ''CANCELED'' None (Some ''quota exceeded'') None) \<rparr>"

definition offline_world :: world where
  "offline_world = example_world \<lparr> fetchPoll := (\<lambda>n u k.
      if n = 1 then Rejected ''fetch failed''
      else poll_reply ''SUCCEEDED'' (Some ''https://cdn.example/v.mp4'') None (Some 7)) \<rparr>"

text \<open>A request for five seconds of video, without an image.\<close>

definition example_request :: ImageParams where
  "example_request = \<lparr> p_duration = Some 5, p_width = None, p_height = None,
     p_aspectRatio = None, p_audio = None, p_image = None \<rparr>"


definition two_images_request :: ImageParams where
  "two_images_request = example_request
     \<lparr> p_image := Some (Many [''https://example.com/a.png'', ''https://example.com/b.png'']) \<rparr>"

section \<open>The poll loop, step by step\<close>

lemma poll_calls_append: "poll_calls (xs @ ys) = poll_calls xs + poll_calls ys"
  by (simp add: poll_calls_def)

lemma percentages_append: "percentages (xs @ ys) = percentages xs @ percentages ys"
  by (induction xs rule: percentages.induct) simp_all

lemma snd_pollTaskOnce:
  "snd (pollTaskOnce w u k a rid) =
     [UpdateBar rid (progressPercent a) ''Processing''
        (''Generating video... ('' @ string_of_nat a @ ''/'' @ string_of_nat POLL_MAX_ATTEMPTS @ '')''),
      FetchPoll u k]"
  by (simp add: pollTaskOnce_def Let_def split: fetch_reply.splits sum.splits)

lemma poll_calls_pollTaskOnce: "poll_calls (snd (pollTaskOnce w u k a rid)) = 1"
  by (simp add: snd_pollTaskOnce poll_calls_def)

lemma poll_calls_simps:
  "poll_calls [] = 0" "poll_calls (Sleep ms # es) = poll_calls es"
  "poll_calls (FetchPoll u k # es) = Suc (poll_calls es)"
  "poll_calls (UpdateBar rid p ph m # es) = poll_calls es"
  "poll_calls (FetchVideo v # es) = poll_calls es"
  by (simp_all add: poll_calls_def)

lemma downloadVideo_events:
  "downloadVideo w v rid = (res, evs) \<Longrightarrow>
     poll_calls evs = 0 \<and>
     (case res of
        Inl e \<Rightarrow> evs = [UpdateBar rid 90 ''Processing'' ''Downloading video...'', FetchVideo v]
      | Inr buf \<Rightarrow> evs = [UpdateBar rid 90 ''Processing'' ''Downloading video...'', FetchVideo v,
                          UpdateBar rid 95 ''Success'' ''Video generation completed'']
                    \<and> (\<exists>r. fetchVideo w v = Response r \<and> ok r \<and> body r = Inr buf))"
  by (auto simp: downloadVideo_def Let_def poll_calls_def split: fetch_reply.splits sum.splits if_splits)

lemma loop_pending:
  assumes "a \<le> POLL_MAX_ATTEMPTS" "fst (pollTaskOnce w u k a rid) = Inr Pending"
  shows "pollWanTask_loop w u k rid a =
           (fst (pollWanTask_loop w u k rid (a + 1)),
            snd (pollTaskOnce w u k a rid) @ [Sleep POLL_DELAY_MS] @ snd (pollWanTask_loop w u k rid (a + 1)))"
proof -
  obtain evs where "pollTaskOnce w u k a rid = (Inr Pending, evs)"
    using assms(2) by (cases "pollTaskOnce w u k a rid") auto
  then show ?thesis
    using assms(1) by (subst pollWanTask_loop.simps) (simp split: prod.splits)
qed

lemma loop_error:
  assumes "a \<le> POLL_MAX_ATTEMPTS" "fst (pollTaskOnce w u k a rid) = Inl e"
  shows "pollWanTask_loop w u k rid a = (Inl e, snd (pollTaskOnce w u k a rid))"
proof -
  obtain evs where "pollTaskOnce w u k a rid = (Inl e, evs)"
    using assms(2) by (cases "pollTaskOnce w u k a rid") auto
  then show ?thesis
    using assms(1) by (subst pollWanTask_loop.simps) simp
qed

lemma loop_failed:
  assumes "a \<le> POLL_MAX_ATTEMPTS" "fst (pollTaskOnce w u k a rid) = Inr (Failed err)"
  shows "pollWanTask_loop w u k rid a = (Inl (HttpError err 500), snd (pollTaskOnce w u k a rid))"
proof -
  obtain evs where "pollTaskOnce w u k a rid = (Inr (Failed err), evs)"
    using assms(2) by (cases "pollTaskOnce w u k a rid") auto
  then show ?thesis
    using assms(1) by (subst pollWanTask_loop.simps) simp
qed

lemma loop_completed:
  assumes "a \<le> POLL_MAX_ATTEMPTS" "fst (pollTaskOnce w u k a rid) = Inr (Completed v d)"
  shows "pollWanTask_loop w u k rid a =
           (map_sum id (\<lambda>buf. (buf, d)) (fst (downloadVideo w v rid)),
            snd (pollTaskOnce w u k a rid) @ snd (downloadVideo w v rid))"
proof -
  obtain evs where "pollTaskOnce w u k a rid = (Inr (Completed v d), evs)"
    using assms(2) by (cases "pollTaskOnce w u k a rid") auto
  then show ?thesis
    using assms(1) by (subst pollWanTask_loop.simps) (simp split: prod.splits sum.splits)
qed

lemma loop_timeout:
  "\<not> a \<le> POLL_MAX_ATTEMPTS \<Longrightarrow>
     pollWanTask_loop w u k rid a =
       (Inl (HttpError ''Video generation timed out after 5 minutes'' 504), [])"
  by (subst pollWanTask_loop.simps) simp

lemma loop_skip:
  assumes "\<forall>j. a \<le> j \<and> j < n \<longrightarrow> fst (pollTaskOnce w u k j rid) = Inr Pending"
    and "a \<le> n" "n \<le> POLL_MAX_ATTEMPTS + 1"
  shows "fst (pollWanTask_loop w u k rid a) = fst (pollWanTask_loop w u k rid n)
       \<and> poll_calls (snd (pollWanTask_loop w u k rid a))
           = (n - a) + poll_calls (snd (pollWanTask_loop w u k rid n))"
  using assms
proof (induction "n - a" arbitrary: a)
  case 0
  then show ?case by simp
next
  case (Suc m)
  then have lt: "a < n" and le: "a \<le> POLL_MAX_ATTEMPTS" by auto
  have pend: "fst (pollTaskOnce w u k a rid) = Inr Pending"
    using Suc.prems(1) lt by simp
  have ih: "fst (pollWanTask_loop w u k rid (a + 1)) = fst (pollWanTask_loop w u k rid n)
       \<and> poll_calls (snd (pollWanTask_loop w u k rid (a + 1)))
           = (n - (a + 1)) + poll_calls (snd (pollWanTask_loop w u k rid n))"
    using Suc.hyps(1)[of "a + 1"] Suc.hyps(2) Suc.prems lt by auto
  show ?case
    using ih lt by (simp add: loop_pending[OF le pend] poll_calls_append poll_calls_pollTaskOnce poll_calls_simps)
qed

lemma loop_all_pending:
  assumes "\<forall>j. 1 \<le> j \<and> j \<le> POLL_MAX_ATTEMPTS \<longrightarrow> fst (pollTaskOnce w u k j rid) = Inr Pending"
  shows "fst (pollWanTask_loop w u k rid 1)
           = Inl (HttpError ''Video generation timed out after 5 minutes'' 504)
       \<and> poll_calls (snd (pollWanTask_loop w u k rid 1)) = POLL_MAX_ATTEMPTS"
proof -
  have skip: "fst (pollWanTask_loop w u k rid 1)
                = fst (pollWanTask_loop w u k rid (POLL_MAX_ATTEMPTS + 1))
            \<and> poll_calls (snd (pollWanTask_loop w u k rid 1))
                = (POLL_MAX_ATTEMPTS + 1 - 1)
                  + poll_calls (snd (pollWanTask_loop w u k rid (POLL_MAX_ATTEMPTS + 1)))"
    by (rule loop_skip) (use assms in auto)
  have stop: "pollWanTask_loop w u k rid (POLL_MAX_ATTEMPTS + 1)
                = (Inl (HttpError ''Video generation timed out after 5 minutes'' 504), [])"
    by (rule loop_timeout) simp
  show ?thesis
    using skip unfolding stop by (simp add: poll_calls_simps)
qed

lemma pollTaskOnce_rejected:
  "fetchPoll w a u k = Rejected e \<Longrightarrow> fst (pollTaskOnce w u k a rid) = Inl (OtherError e)"
  by (simp add: pollTaskOnce_def Let_def)

lemma pollTaskOnce_text_rejected:
  "fetchPoll w a u k = Response r \<Longrightarrow> \<not> ok r \<Longrightarrow> body_text r = Inl e \<Longrightarrow>
     fst (pollTaskOnce w u k a rid) = Inl (OtherError e)"
  by (simp add: pollTaskOnce_def Let_def)

lemma pollTaskOnce_4xx:
  "fetchPoll w a u k = Response r \<Longrightarrow> 400 \<le> status r \<Longrightarrow> status r < 500 \<Longrightarrow>
     body_text r = Inr errorText \<Longrightarrow>
     fst (pollTaskOnce w u k a rid)
       = Inr (Failed (''DashScope poll failed ('' @ string_of_nat (status r) @ ''): '' @ errorText))"
  by (simp add: pollTaskOnce_def Let_def ok_def)

lemma pollTaskOnce_5xx:
  "fetchPoll w a u k = Response r \<Longrightarrow> 500 \<le> status r \<Longrightarrow> body_text r = Inr errorText \<Longrightarrow>
     fst (pollTaskOnce w u k a rid) = Inr Pending"
  by (simp add: pollTaskOnce_def Let_def ok_def)

lemma pollTaskOnce_no_url:
  assumes "fetchPoll w a u k = Response r" "ok r" "body r = Inr data"
    and "map_option toUpperCase (Option.bind (r_output data) task_status) = Some ''SUCCEEDED''"
    and "\<not> truthy (Option.bind (r_output data) video_url)"
  shows "fst (pollTaskOnce w u k a rid)
           = Inl (HttpError ''No video URL in completed response'' 500)"
  using assms by (auto simp add: pollTaskOnce_def Let_def)

lemma pollTaskOnce_completed:
  assumes "fetchPoll w a u k = Response r" "ok r" "body r = Inr data"
    and "map_option toUpperCase (Option.bind (r_output data) task_status) = Some ''SUCCEEDED''"
    and "truthy (Option.bind (r_output data) video_url)"
  shows "fst (pollTaskOnce w u k a rid)
           = Inr (Completed (the (Option.bind (r_output data) video_url))
                    (case Option.bind (r_usage data) video_duration of None \<Rightarrow> 0 | Some d \<Rightarrow> d))"
  using assms by (auto simp add: pollTaskOnce_def Let_def)

lemma pollTaskOnce_failed_status:
  assumes "fetchPoll w a u k = Response r" "ok r" "body r = Inr data"
    and "map_option toUpperCase (Option.bind (r_output data) task_status) = Some ''FAILED''"
  shows "fst (pollTaskOnce w u k a rid)
           = Inr (Failed (or_str (Option.bind (r_output data) out_message)
                            (or_str (r_message data) ''Video generation failed'')))"
  using assms by (auto simp add: pollTaskOnce_def Let_def)

lemma pollTaskOnce_canceled:
  assumes "fetchPoll w a u k = Response r" "ok r" "body r = Inr data"
    and "map_option toUpperCase (Option.bind (r_output data) task_status) = Some ''CANCELED''"
  shows "fst (pollTaskOnce w u k a rid) = Inr (Failed ''Video generation was canceled'')"
  using assms by (auto simp add: pollTaskOnce_def Let_def)

lemma loop_stops:
  assumes "1 \<le> n" "n \<le> POLL_MAX_ATTEMPTS"
    and "\<forall>j. 1 \<le> j \<and> j < n \<longrightarrow> fst (pollTaskOnce w u k j rid) = Inr Pending"
  shows "fst (pollWanTask_loop w u k rid 1) = fst (pollWanTask_loop w u k rid n)
       \<and> poll_calls (snd (pollWanTask_loop w u k rid 1))
           = (n - 1) + poll_calls (snd (pollWanTask_loop w u k rid n))"
  by (rule loop_skip) (use assms in auto)

lemma loop_error_at:
  assumes "1 \<le> n" "n \<le> POLL_MAX_ATTEMPTS"
    and "\<forall>j. 1 \<le> j \<and> j < n \<longrightarrow> fst (pollTaskOnce w u k j rid) = Inr Pending"
    and "fst (pollTaskOnce w u k n rid) = Inl e"
  shows "fst (pollWanTask_loop w u k rid 1) = Inl e
       \<and> poll_calls (snd (pollWanTask_loop w u k rid 1)) = n"
  using loop_stops[OF assms(1,2,3)] assms(1)
  by (simp add: loop_error[OF assms(2,4)] poll_calls_pollTaskOnce)

lemma loop_failed_at:
  assumes "1 \<le> n" "n \<le> POLL_MAX_ATTEMPTS"
    and "\<forall>j. 1 \<le> j \<and> j < n \<longrightarrow> fst (pollTaskOnce w u k j rid) = Inr Pending"
    and "fst (pollTaskOnce w u k n rid) = Inr (Failed err)"
  shows "fst (pollWanTask_loop w u k rid 1) = Inl (HttpError err 500)
       \<and> poll_calls (snd (pollWanTask_loop w u k rid 1)) = n"
  using loop_stops[OF assms(1,2,3)] assms(1)
  by (simp add: loop_failed[OF assms(2,4)] poll_calls_pollTaskOnce)

lemma loop_events:
  "\<forall>e \<in> set (snd (pollWanTask_loop w u k rid a)). loop_event e"
proof (induction w u k rid a rule: pollWanTask_loop.induct)
  case (1 w u k rid a)
  show ?case
  proof (cases "a \<le> POLL_MAX_ATTEMPTS")
    case False
    then show ?thesis by (simp add: loop_timeout)
  next
    case le: True
    obtain res evs where p: "pollTaskOnce w u k a rid = (res, evs)"
      by (cases "pollTaskOnce w u k a rid")
    have evs: "evs = snd (pollTaskOnce w u k a rid)" using p by simp
    have evs_ok: "\<forall>e \<in> set evs. loop_event e"
      unfolding evs snd_pollTaskOnce by simp
    show ?thesis
    proof (cases res)
      case (Inl e)
      then show ?thesis using loop_error[OF le, of w u k rid e] p evs_ok by simp
    next
      case (Inr pr)
      show ?thesis
      proof (cases pr)
        case Pending
        have ih: "\<forall>e \<in> set (snd (pollWanTask_loop w u k rid (a + 1))). loop_event e"
          using "1.IH"[OF le] p Inr Pending by simp
        show ?thesis
          using loop_pending[OF le, of w u k rid] p Inr Pending evs_ok ih by auto
      next
        case (Completed v d)
        obtain r2 e2 where dl: "downloadVideo w v rid = (r2, e2)"
          by (cases "downloadVideo w v rid")
        have "\<forall>e \<in> set e2. loop_event e"
          using downloadVideo_events[OF dl] by (cases r2) auto
        then show ?thesis
          using loop_completed[OF le, of w u k rid v d] p Inr Completed evs_ok dl by auto
      next
        case (Failed err)
        then show ?thesis using loop_failed[OF le, of w u k rid err] p Inr evs_ok by simp
      qed
    qed
  qed
qed

section \<open>The progress percentages of the poll loop\<close>

lemma progressPercent_mono: "a \<le> b \<Longrightarrow> progressPercent a \<le> progressPercent b"
  by (simp add: progressPercent_def div_le_mono min_le_iff_disj)

lemma progressPercent_bounds: "50 \<le> progressPercent a \<and> progressPercent a \<le> 90"
  by (simp add: progressPercent_def)

lemma percentages_pollTaskOnce:
  "percentages (snd (pollTaskOnce w u k a rid)) = [progressPercent a]"
  by (simp add: snd_pollTaskOnce)

lemma loop_percentages:
  "sorted (percentages (snd (pollWanTask_loop w u k rid a)))
   \<and> (\<forall>p \<in> set (percentages (snd (pollWanTask_loop w u k rid a))).
         progressPercent a \<le> p \<and> p \<le> 95)"
proof (induction w u k rid a rule: pollWanTask_loop.induct)
  case (1 w u k rid a)
  note b = progressPercent_bounds[of a]
  show ?case
  proof (cases "a \<le> POLL_MAX_ATTEMPTS")
    case False
    then show ?thesis by (simp add: loop_timeout)
  next
    case le: True
    obtain res evs where p: "pollTaskOnce w u k a rid = (res, evs)"
      by (cases "pollTaskOnce w u k a rid")
    have pe: "percentages evs = [progressPercent a]"
      using percentages_pollTaskOnce[of w u k a rid] p by simp
    show ?thesis
    proof (cases res)
      case (Inl e)
      then show ?thesis
        using loop_error[OF le, of w u k rid e] p b pe by simp
    next
      case (Inr pr)
      show ?thesis
      proof (cases pr)
        case Pending
        have ih: "sorted (percentages (snd (pollWanTask_loop w u k rid (a + 1))))
           \<and> (\<forall>p \<in> set (percentages (snd (pollWanTask_loop w u k rid (a + 1)))).
                 progressPercent (a + 1) \<le> p \<and> p \<le> 95)"
          using "1.IH"[OF le] p Inr Pending by simp
        have m: "progressPercent a \<le> progressPercent (a + 1)"
          by (rule progressPercent_mono) simp
        have eq: "percentages (snd (pollWanTask_loop w u k rid a))
                    = progressPercent a # percentages (snd (pollWanTask_loop w u k rid (a + 1)))"
          using loop_pending[OF le, of w u k rid] p Inr Pending pe
          by (simp add: percentages_append)
        show ?thesis
          unfolding eq using ih m b by fastforce
      next
        case (Completed v d)
        obtain r2 e2 where dl: "downloadVideo w v rid = (r2, e2)"
          by (cases "downloadVideo w v rid")
        have "percentages e2 = [90] \<or> percentages e2 = [90, 95]"
          using downloadVideo_events[OF dl] by (cases r2) auto
        then show ?thesis
          using loop_completed[OF le, of w u k rid v d] p Inr Completed dl b pe
          by (auto simp add: percentages_append)
      next
        case (Failed err)
        then show ?thesis
          using loop_failed[OF le, of w u k rid err] p Inr b pe
          by simp
      qed
    qed
  qed
qed

lemma loop_success:
  "fst (pollWanTask_loop w u k rid a) = Inr (buf, d) \<Longrightarrow>
     \<exists>n v pre r. a \<le> n \<and> n \<le> POLL_MAX_ATTEMPTS
       \<and> fst (pollTaskOnce w u k n rid) = Inr (Completed v d)
       \<and> snd (pollWanTask_loop w u k rid a)
           = pre @ [UpdateBar rid 90 ''Processing'' ''Downloading video...'', FetchVideo v,
                    UpdateBar rid 95 ''Success'' ''Video generation completed'']
       \<and> (\<forall>p \<in> set (percentages pre). p \<le> 90)
       \<and> fetchVideo w v = Response r \<and> ok r \<and> body r = Inr buf"
proof (induction w u k rid a rule: pollWanTask_loop.induct)
  case (1 w u k rid a)
  note b = progressPercent_bounds[of a]
  show ?case
  proof (cases "a \<le> POLL_MAX_ATTEMPTS")
    case False
    then show ?thesis using "1.prems" by (simp add: loop_timeout)
  next
    case le: True
    obtain res evs where p: "pollTaskOnce w u k a rid = (res, evs)"
      by (cases "pollTaskOnce w u k a rid")
    have pe: "percentages evs = [progressPercent a]"
      using percentages_pollTaskOnce[of w u k a rid] p by simp
    show ?thesis
    proof (cases res)
      case (Inl e)
      then show ?thesis
        using loop_error[OF le, of w u k rid e] p "1.prems" by simp
    next
      case (Inr pr)
      show ?thesis
      proof (cases pr)
        case Pending
        have nxt: "fst (pollWanTask_loop w u k rid (a + 1)) = Inr (buf, d)"
          using loop_pending[OF le, of w u k rid] p Inr Pending "1.prems" by simp
        have "\<exists>n v pre r. a + 1 \<le> n \<and> n \<le> POLL_MAX_ATTEMPTS
          \<and> fst (pollTaskOnce w u k n rid) = Inr (Completed v d)
          \<and> snd (pollWanTask_loop w u k rid (a + 1))
             = pre @ [UpdateBar rid 90 ''Processing'' ''Downloading video...'', FetchVideo v,
                      UpdateBar rid 95 ''Success'' ''Video generation completed'']
          \<and> (\<forall>p \<in> set (percentages pre). p \<le> 90)
          \<and> fetchVideo w v = Response r \<and> ok r \<and> body r = Inr buf"
          using "1.IH"[OF le p[symmetric] Inr Pending nxt] .
        then obtain n v pre r where ih: "a + 1 \<le> n" "n \<le> POLL_MAX_ATTEMPTS"
          "fst (pollTaskOnce w u k n rid) = Inr (Completed v d)"
          "snd (pollWanTask_loop w u k rid (a + 1))
             = pre @ [UpdateBar rid 90 ''Processing'' ''Downloading video...'', FetchVideo v,
                      UpdateBar rid 95 ''Success'' ''Video generation completed'']"
          "\<forall>p \<in> set (percentages pre). p \<le> 90"
          "fetchVideo w v = Response r" "ok r" "body r = Inr buf"
          by blast
        let ?pre = "snd (pollTaskOnce w u k a rid) @ [Sleep POLL_DELAY_MS] @ pre"
        have "snd (pollWanTask_loop w u k rid a)
               = ?pre @ [UpdateBar rid 90 ''Processing'' ''Downloading video...'', FetchVideo v,
                         UpdateBar rid 95 ''Success'' ''Video generation completed'']"
          using loop_pending[OF le, of w u k rid] p Inr Pending ih(4) by simp
        moreover have "\<forall>p \<in> set (percentages ?pre). p \<le> 90"
          using ih(5) b p pe by (auto simp add: percentages_append)
        moreover have "a \<le> n" using ih(1) by simp
        ultimately show ?thesis using ih(2,3,6,7,8) by blast
      next
        case (Completed v d')
        obtain r2 e2 where dl: "downloadVideo w v rid = (r2, e2)"
          by (cases "downloadVideo w v rid")
        have lp: "pollWanTask_loop w u k rid a = (map_sum id (\<lambda>buf. (buf, d')) r2, evs @ e2)"
          using loop_completed[OF le, of w u k rid v d'] p Inr Completed dl by simp
        then obtain r2buf: "r2 = Inr buf" and dd: "d' = d"
          using "1.prems" by (cases r2) auto
        obtain r where ev2: "e2 = [UpdateBar rid 90 ''Processing'' ''Downloading video...'', FetchVideo v,
                          UpdateBar rid 95 ''Success'' ''Video generation completed'']"
          and fv: "fetchVideo w v = Response r" "ok r" "body r = Inr buf"
          using downloadVideo_events[OF dl] r2buf by auto
        have "snd (pollWanTask_loop w u k rid a)
                = evs @ [UpdateBar rid 90 ''Processing'' ''Downloading video...'', FetchVideo v,
                          UpdateBar rid 95 ''Success'' ''Video generation completed'']"
          using lp ev2 by simp
        moreover have "\<forall>p \<in> set (percentages evs). p \<le> 90"
          using pe b by simp
        moreover have "fst (pollTaskOnce w u k a rid) = Inr (Completed v d)"
          using p Inr Completed dd by simp
        ultimately show ?thesis using le fv by blast
      next
        case (Failed err)
        then show ?thesis
          using loop_failed[OF le, of w u k rid err] p Inr "1.prems" by simp
      qed
    qed
  qed
qed

section \<open>The shape of a run\<close>

lemma createDashScopeTask_events:
  "createDashScopeTask w key rb rid = (res, evs) \<Longrightarrow>
     evs = [UpdateBar rid 45 ''Processing'' ''Initiating video generation...'',
            FetchSubmit (DASHSCOPE_API_BASE @ ''/services/aigc/video-generation/video-synthesis'')
              key rb]
           @ (case res of
                Inl e \<Rightarrow> []
              | Inr t \<Rightarrow> [UpdateBar rid 50 ''Processing''
                            ''Generating video (this takes 1-5 minutes)...''])"
  by (auto simp add: createDashScopeTask_def Let_def
      split: fetch_reply.splits sum.splits if_splits)

lemma build_duration:
  "buildDashScopeRequest p i vp = Inr rb \<Longrightarrow>
     duration (parameters rb) = vp_durationSeconds vp"
  by (auto simp add: buildDashScopeRequest_def Let_def split: if_splits sum.splits)

lemma build_none:
  "buildDashScopeRequest p None vp
     = Inr \<lparr> model = WAN_T2V_MODEL, input = \<lparr> prompt = p, img_url = None \<rparr>,
             parameters = \<lparr> resolution = vp_resolution vp, duration = vp_durationSeconds vp,
                            prompt_extend = True, audio = vp_generateAudio vp \<rparr> \<rparr>"
  by (simp add: buildDashScopeRequest_def truthy_def)

lemma build_data_uri:
  "buildDashScopeRequest p (Some (''data:'' @ mime @ '';base64,'' @ b64)) vp
     = Inr \<lparr> model = WAN_I2V_MODEL,
             input = \<lparr> prompt = p, img_url = Some (''data:'' @ mime @ '';base64,'' @ b64) \<rparr>,
             parameters = \<lparr> resolution = vp_resolution vp, duration = vp_durationSeconds vp,
                            prompt_extend = True, audio = vp_generateAudio vp \<rparr> \<rparr>"
  by (simp add: buildDashScopeRequest_def truthy_def prepareImageUrl_def startsWith_def)

lemma run_success:
  assumes "callWanAlibabaAPI w p sp rid = (Inr res, tr)"
  shows "\<exists>taskId buf d ev3 rb.
           truthy (DASHSCOPE_API_KEY w)
         \<and> pollWanTask w taskId (the (DASHSCOPE_API_KEY w)) rid = (Inr (buf, d), ev3)
         \<and> res = createVideoResult buf (prepareVideoParameters w sp) d
         \<and> (tr = [UpdateBar rid 35 ''Processing''
                     ''Starting video generation with Wan 2.6 (T2V)...'',
                   UpdateBar rid 45 ''Processing'' ''Initiating video generation...'',
                   FetchSubmit
                     (DASHSCOPE_API_BASE @ ''/services/aigc/video-generation/video-synthesis'')
                     (the (DASHSCOPE_API_KEY w)) rb,
                   UpdateBar rid 50 ''Processing''
                     ''Generating video (this takes 1-5 minutes)...''] @ ev3
            \<or> tr = [UpdateBar rid 35 ''Processing''
                       ''Starting video generation with Wan 2.6 (I2V)...'',
                     DownloadImageAsBase64 (the (extractFirstImage (p_image sp))),
                     UpdateBar rid 45 ''Processing'' ''Initiating video generation...'',
                     FetchSubmit
                       (DASHSCOPE_API_BASE @ ''/services/aigc/video-generation/video-synthesis'')
                       (the (DASHSCOPE_API_KEY w)) rb,
                     UpdateBar rid 50 ''Processing''
                       ''Generating video (this takes 1-5 minutes)...''] @ ev3)"
  using assms
  by (auto simp add: callWanAlibabaAPI_def Let_def
      dest!: createDashScopeTask_events
      split: if_splits sum.splits prod.splits) blast+

lemma pollWanTask_events:
  "pollWanTask w t k rid = (r, ev3) \<Longrightarrow> \<forall>e \<in> set ev3. loop_event e"
  using loop_events[of w "DASHSCOPE_API_BASE @ ''/tasks/'' @ t" k rid 1]
  by (simp add: pollWanTask_def)

lemma run_no_key:
  "\<not> truthy (DASHSCOPE_API_KEY w) \<Longrightarrow>
     callWanAlibabaAPI w p sp rid
       = (Inl (HttpError ''DASHSCOPE_API_KEY environment variable is required for Wan model''
                 500), [])"
  by (simp add: callWanAlibabaAPI_def)

lemma run_image_failed:
  assumes "truthy (DASHSCOPE_API_KEY w)" "extractFirstImage (p_image sp) = Some u" "u \<noteq> []"
    and "downloadImageAsBase64 w u = Inl e"
  shows "callWanAlibabaAPI w p sp rid
           = (Inl e, [UpdateBar rid 35 ''Processing''
                        ''Starting video generation with Wan 2.6 (I2V)...'',
                      DownloadImageAsBase64 u])"
  using assms by (simp add: callWanAlibabaAPI_def Let_def truthy_def)

lemma run_image_ok:
  assumes "truthy (DASHSCOPE_API_KEY w)" "extractFirstImage (p_image sp) = Some u" "u \<noteq> []"
    and "downloadImageAsBase64 w u = Inr (b64, mime)"
  shows "\<exists>res rest.
           callWanAlibabaAPI w p sp rid
             = (res, [UpdateBar rid 35 ''Processing''
                        ''Starting video generation with Wan 2.6 (I2V)...'',
                      DownloadImageAsBase64 u,
                      UpdateBar rid 45 ''Processing'' ''Initiating video generation...'',
                      FetchSubmit
                        (DASHSCOPE_API_BASE @ ''/services/aigc/video-generation/video-synthesis'')
                        (the (DASHSCOPE_API_KEY w))
                        \<lparr> model = WAN_I2V_MODEL,
                          input = \<lparr> prompt = p,
                                    img_url = Some (''data:'' @ mime @ '';base64,'' @ b64) \<rparr>,
                          parameters =
                            \<lparr> resolution = vp_resolution (prepareVideoParameters w sp),
                              duration = vp_durationSeconds (prepareVideoParameters w sp),
                              prompt_extend = True,
                              audio = vp_generateAudio (prepareVideoParameters w sp) \<rparr> \<rparr>]
                     @ rest)
         \<and> (\<forall>e \<in> set rest. loop_event e)"
proof -
  have u: "truthy (Some u)" using assms(3) by (simp add: truthy_def)
  show ?thesis
    using assms(1,2,4) u build_data_uri[of p mime b64 "prepareVideoParameters w sp"]
    by (auto simp add: callWanAlibabaAPI_def Let_def
        dest!: createDashScopeTask_events pollWanTask_events
        split: sum.splits prod.splits)
qed

lemma run_no_image:
  assumes "truthy (DASHSCOPE_API_KEY w)" "\<not> truthy (extractFirstImage (p_image sp))"
  shows "\<exists>res rest.
           callWanAlibabaAPI w p sp rid
             = (res, [UpdateBar rid 35 ''Processing''
                        ''Starting video generation with Wan 2.6 (T2V)...'',
                      UpdateBar rid 45 ''Processing'' ''Initiating video generation...'',
                      FetchSubmit
                        (DASHSCOPE_API_BASE @ ''/services/aigc/video-generation/video-synthesis'')
                        (the (DASHSCOPE_API_KEY w))
                        \<lparr> model = WAN_T2V_MODEL,
                          input = \<lparr> prompt = p, img_url = None \<rparr>,
                          parameters =
                            \<lparr> resolution = vp_resolution (prepareVideoParameters w sp),
                              duration = vp_durationSeconds (prepareVideoParameters w sp),
                              prompt_extend = True,
                              audio = vp_generateAudio (prepareVideoParameters w sp) \<rparr> \<rparr>]
                     @ rest)
         \<and> (\<forall>e \<in> set rest. loop_event e)"
  using assms build_none[of p "prepareVideoParameters w sp"]
  by (auto simp add: callWanAlibabaAPI_def Let_def
      dest!: createDashScopeTask_events pollWanTask_events
      split: sum.splits prod.splits)

lemma truthy_some: "truthy x \<Longrightarrow> \<exists>u. x = Some u \<and> u \<noteq> []"
  by (cases x) (simp_all add: truthy_def)

lemma not_loop_event:
  "\<forall>e \<in> set rest. loop_event e \<Longrightarrow>
     FetchSubmit url key rb \<notin> set rest \<and> DownloadImageAsBase64 v \<notin> set rest"
  by auto

lemma run_events:
  "(FetchSubmit url key rb \<in> set (snd (callWanAlibabaAPI w p sp rid)) \<longrightarrow>
      duration (parameters rb) = vp_durationSeconds (prepareVideoParameters w sp))
   \<and> (DownloadImageAsBase64 v \<in> set (snd (callWanAlibabaAPI w p sp rid)) \<longrightarrow>
      extractFirstImage (p_image sp) = Some v)"
proof (cases "truthy (DASHSCOPE_API_KEY w)")
  case False
  then show ?thesis by (simp add: run_no_key)
next
  case key: True
  show ?thesis
  proof (cases "truthy (extractFirstImage (p_image sp))")
    case False
    obtain res rest where
      "callWanAlibabaAPI w p sp rid
             = (res, [UpdateBar rid 35 ''Processing''
                        ''Starting video generation with Wan 2.6 (T2V)...'',
                      UpdateBar rid 45 ''Processing'' ''Initiating video generation...'',
                      FetchSubmit
                        (DASHSCOPE_API_BASE @ ''/services/aigc/video-generation/video-synthesis'')
                        (the (DASHSCOPE_API_KEY w))
                        \<lparr> model = WAN_T2V_MODEL,
                          input = \<lparr> prompt = p, img_url = None \<rparr>,
                          parameters =
                            \<lparr> resolution = vp_resolution (prepareVideoParameters w sp),
                              duration = vp_durationSeconds (prepareVideoParameters w sp),
                              prompt_extend = True,
                              audio = vp_generateAudio (prepareVideoParameters w sp) \<rparr> \<rparr>]
                     @ rest)"
      and "\<forall>e \<in> set rest. loop_event e"
      using run_no_image[OF key False] by blast
    then show ?thesis
      using not_loop_event[of rest url key rb v] by auto
  next
    case True
    then obtain u where u: "extractFirstImage (p_image sp) = Some u" "u \<noteq> []"
      using truthy_some by blast
    show ?thesis
    proof (cases "downloadImageAsBase64 w u")
      case (Inl e)
      show ?thesis
        using u by (simp add: run_image_failed[OF key u Inl])
    next
      case (Inr bm)
      obtain b64 mime where bm: "bm = (b64, mime)" by (cases bm)
      obtain res rest where
        "callWanAlibabaAPI w p sp rid
             = (res, [UpdateBar rid 35 ''Processing''
                        ''Starting video generation with Wan 2.6 (I2V)...'',
                      DownloadImageAsBase64 u,
                      UpdateBar rid 45 ''Processing'' ''Initiating video generation...'',
                      FetchSubmit
                        (DASHSCOPE_API_BASE @ ''/services/aigc/video-generation/video-synthesis'')
                        (the (DASHSCOPE_API_KEY w))
                        \<lparr> model = WAN_I2V_MODEL,
                          input = \<lparr> prompt = p,
                                    img_url = Some (''data:'' @ mime @ '';base64,'' @ b64) \<rparr>,
                          parameters =
                            \<lparr> resolution = vp_resolution (prepareVideoParameters w sp),
                              duration = vp_durationSeconds (prepareVideoParameters w sp),
                              prompt_extend = True,
                              audio = vp_generateAudio (prepareVideoParameters w sp) \<rparr> \<rparr>]
                     @ rest)"
        and "\<forall>e \<in> set rest. loop_event e"
        using run_image_ok[OF key u Inr[unfolded bm]] by blast
      then show ?thesis
        using not_loop_event[of rest url key rb v] u by auto
    qed
  qed
qed

lemma prepared_duration:
  "vp_durationSeconds (prepareVideoParameters w sp)
     = max MIN_DURATION_SECONDS (min MAX_DURATION_SECONDS (rawDuration sp))"
  by (simp add: prepareVideoParameters_def Let_def split: prod.splits)

lemma run_submits:
  assumes "truthy (DASHSCOPE_API_KEY w)"
    and "truthy (extractFirstImage (p_image sp)) \<longrightarrow>
           (\<exists>x. downloadImageAsBase64 w (the (extractFirstImage (p_image sp))) = Inr x)"
  shows "\<exists>url key rb. FetchSubmit url key rb \<in> set (snd (callWanAlibabaAPI w p sp rid))"
proof (cases "truthy (extractFirstImage (p_image sp))")
  case False
  show ?thesis using run_no_image[OF assms(1) False, of p rid] by fastforce
next
  case True
  then obtain u where u: "extractFirstImage (p_image sp) = Some u" "u \<noteq> []"
    using truthy_some by blast
  obtain b64 mime where "downloadImageAsBase64 w u = Inr (b64, mime)"
    using assms(2) True u by fastforce
  then show ?thesis using run_image_ok[OF assms(1) u, of b64 mime p rid] by fastforce
qed

section \<open>Further facts about polls and runs\<close>


lemma run_success_pre:
  assumes "callWanAlibabaAPI w p sp rid = (Inr res, tr)"
  shows "\<exists>taskId buf d ev3 hd_evs.
           pollWanTask w taskId (the (DASHSCOPE_API_KEY w)) rid = (Inr (buf, d), ev3)
         \<and> res = createVideoResult buf (prepareVideoParameters w sp) d
         \<and> tr = hd_evs @ ev3 \<and> percentages hd_evs = [35, 45, 50]"
proof -
  obtain taskId buf d ev3 rb where
    poll: "pollWanTask w taskId (the (DASHSCOPE_API_KEY w)) rid = (Inr (buf, d), ev3)"
    and res: "res = createVideoResult buf (prepareVideoParameters w sp) d"
    and tr: "tr = [UpdateBar rid 35 ''Processing''
                     ''Starting video generation with Wan 2.6 (T2V)...'',
                   UpdateBar rid 45 ''Processing'' ''Initiating video generation...'',
                   FetchSubmit
                     (DASHSCOPE_API_BASE @ ''/services/aigc/video-generation/video-synthesis'')
                     (the (DASHSCOPE_API_KEY w)) rb,
                   UpdateBar rid 50 ''Processing''
                     ''Generating video (this takes 1-5 minutes)...''] @ ev3
            \<or> tr = [UpdateBar rid 35 ''Processing''
                       ''Starting video generation with Wan 2.6 (I2V)...'',
                     DownloadImageAsBase64 (the (extractFirstImage (p_image sp))),
                     UpdateBar rid 45 ''Processing'' ''Initiating video generation...'',
                     FetchSubmit
                       (DASHSCOPE_API_BASE @ ''/services/aigc/video-generation/video-synthesis'')
                       (the (DASHSCOPE_API_KEY w)) rb,
                     UpdateBar rid 50 ''Processing''
                       ''Generating video (this takes 1-5 minutes)...''] @ ev3"
    using run_success[OF assms] by blast
  from tr show ?thesis
  proof
    assume t: "tr = [UpdateBar rid 35 ''Processing''
                     ''Starting video generation with Wan 2.6 (T2V)...'',
                   UpdateBar rid 45 ''Processing'' ''Initiating video generation...'',
                   FetchSubmit
                     (DASHSCOPE_API_BASE @ ''/services/aigc/video-generation/video-synthesis'')
                     (the (DASHSCOPE_API_KEY w)) rb,
                   UpdateBar rid 50 ''Processing''
                     ''Generating video (this takes 1-5 minutes)...''] @ ev3"
    have "percentages [UpdateBar rid 35 ''Processing''
                     ''Starting video generation with Wan 2.6 (T2V)...'',
                   UpdateBar rid 45 ''Processing'' ''Initiating video generation...'',
                   FetchSubmit
                     (DASHSCOPE_API_BASE @ ''/services/aigc/video-generation/video-synthesis'')
                     (the (DASHSCOPE_API_KEY w)) rb,
                   UpdateBar rid 50 ''Processing''
                     ''Generating video (this takes 1-5 minutes)...''] = [35, 45, 50]"
      by simp
    then show ?thesis using poll res t by blast
  next
    assume t: "tr = [UpdateBar rid 35 ''Processing''
                       ''Starting video generation with Wan 2.6 (I2V)...'',
                     DownloadImageAsBase64 (the (extractFirstImage (p_image sp))),
                     UpdateBar rid 45 ''Processing'' ''Initiating video generation...'',
                     FetchSubmit
                       (DASHSCOPE_API_BASE @ ''/services/aigc/video-generation/video-synthesis'')
                       (the (DASHSCOPE_API_KEY w)) rb,
                     UpdateBar rid 50 ''Processing''
                       ''Generating video (this takes 1-5 minutes)...''] @ ev3"
    have "percentages [UpdateBar rid 35 ''Processing''
                       ''Starting video generation with Wan 2.6 (I2V)...'',
                     DownloadImageAsBase64 (the (extractFirstImage (p_image sp))),
                     UpdateBar rid 45 ''Processing'' ''Initiating video generation...'',
                     FetchSubmit
                       (DASHSCOPE_API_BASE @ ''/services/aigc/video-generation/video-synthesis'')
                       (the (DASHSCOPE_API_KEY w)) rb,
                     UpdateBar rid 50 ''Processing''
                       ''Generating video (this takes 1-5 minutes)...''] = [35, 45, 50]"
      by simp
    then show ?thesis using poll res t by blast
  qed
qed

lemma first_of_list:
  "callWanAlibabaAPI w p (sp \<lparr> p_image := Some (Many (x # xs)) \<rparr>) rid
     = callWanAlibabaAPI w p (sp \<lparr> p_image := Some (Single x) \<rparr>) rid"
  by (cases "x = []")
     (simp_all add: callWanAlibabaAPI_def extractFirstImage_def prepareVideoParameters_def
        rawDuration_def truthy_def)

lemma pollWanTask_no_submit:
  "pollWanTask w t k rid = (r, ev3) \<Longrightarrow> FetchSubmit url key rb \<notin> set ev3"
  using pollWanTask_events[of w t k rid r ev3] by auto

lemma createDashScopeTask_keep:
  "createDashScopeTask w key rb rid = (res, evs) \<Longrightarrow>
     fst (createDashScopeTask w key rb rid) = res
     \<and> evs = [UpdateBar rid 45 ''Processing'' ''Initiating video generation...'',
            FetchSubmit (DASHSCOPE_API_BASE @ ''/services/aigc/video-generation/video-synthesis'')
              key rb]
           @ (case res of
                Inl e \<Rightarrow> []
              | Inr t \<Rightarrow> [UpdateBar rid 50 ''Processing''
                            ''Generating video (this takes 1-5 minutes)...''])"
  using createDashScopeTask_events[of w key rb rid res evs] by simp

lemma run_poll_result:
  assumes "callWanAlibabaAPI w p sp rid = (res, tr)"
    and "FetchSubmit url key rb \<in> set tr"
    and "fst (createDashScopeTask w key rb rid) = Inr taskId"
  shows "res = map_sum id (\<lambda>(buf, d). createVideoResult buf (prepareVideoParameters w sp) d)
                 (fst (pollWanTask w taskId key rid))"
  using assms
  by (auto simp add: callWanAlibabaAPI_def Let_def
      dest!: createDashScopeTask_keep
      dest: pollWanTask_no_submit
      split: if_splits sum.splits prod.splits)

lemma poll_4xx_stops:
  assumes "1 \<le> n" "n \<le> POLL_MAX_ATTEMPTS"
    and "\<forall>j. 1 \<le> j \<and> j < n \<longrightarrow> fst (pollTaskOnce w u k j rid) = Inr Pending"
    and "fetchPoll w n u k = Response r" "400 \<le> status r" "status r < 500"
    and "body_text r = Inr errorText"
  shows "fst (pollWanTask_loop w u k rid 1)
           = Inl (HttpError (''DashScope poll failed ('' @ string_of_nat (status r) @ ''): ''
                               @ errorText) 500)
       \<and> poll_calls (snd (pollWanTask_loop w u k rid 1)) = n"
  by (rule loop_failed_at[OF assms(1,2,3) pollTaskOnce_4xx[OF assms(4,5,6,7)]])

lemma poll_5xx_continues:
  assumes "n \<le> POLL_MAX_ATTEMPTS" "fetchPoll w n u k = Response r" "500 \<le> status r"
    and "body_text r = Inr errorText"
  shows "pollWanTask_loop w u k rid n =
           (fst (pollWanTask_loop w u k rid (n + 1)),
            snd (pollTaskOnce w u k n rid) @ [Sleep POLL_DELAY_MS]
              @ snd (pollWanTask_loop w u k rid (n + 1)))"
  by (rule loop_pending[OF assms(1) pollTaskOnce_5xx[OF assms(2,3,4)]])

lemma poll_rejected_stops:
  assumes "1 \<le> n" "n \<le> POLL_MAX_ATTEMPTS"
    and "\<forall>j. 1 \<le> j \<and> j < n \<longrightarrow> fst (pollTaskOnce w u k j rid) = Inr Pending"
    and "fetchPoll w n u k = Rejected e"
  shows "fst (pollWanTask_loop w u k rid 1) = Inl (OtherError e)
       \<and> poll_calls (snd (pollWanTask_loop w u k rid 1)) = n"
  by (rule loop_error_at[OF assms(1,2,3) pollTaskOnce_rejected[OF assms(4)]])

section \<open>An example run, evaluated\<close>

lemmas run_eval =
  callWanAPI_def callWanAlibabaAPI_def pollWanTask_def pollWanTask_loop.simps pollTaskOnce_def
  downloadVideo_def createDashScopeTask_def buildDashScopeRequest_def
  prepareVideoParameters_def rawDuration_def extractFirstImage_def createVideoResult_def
  prepareImageUrl_def startsWith_def truthy_def or_str_def ok_def toUpperCase_def
  upper_char_def progressPercent_def string_of_nat.simps digit_char_def Let_def
  DASHSCOPE_API_BASE_def WAN_T2V_MODEL_def WAN_I2V_MODEL_def MIN_DURATION_SECONDS_def
  MAX_DURATION_SECONDS_def DEFAULT_DURATION_SECONDS_def DEFAULT_RESOLUTION_def
  POLL_MAX_ATTEMPTS_def POLL_DELAY_MS_def
  example_world_def example_request_def poll_reply_def

lemma example_run:
  "callWanAPI example_world ''a cat'' example_request ''r1''
     = (Inr \<lparr> buffer = ''VIDEO'', mimeType = ''video/mp4'', durationSeconds = 5,
               trackingData = \<lparr> actualModel = ''wan'',
                 tracked_usage = \<lparr> completionVideoSeconds = 7,
                                   completionAudioSeconds = 7 \<rparr> \<rparr> \<rparr>,
        [UpdateBar ''r1'' 35 ''Processing'' ''Starting video generation with Wan 2.6 (T2V)...'',
         UpdateBar ''r1'' 45 ''Processing'' ''Initiating video generation...'',
         FetchSubmit
           ''https://dashscope-intl.aliyuncs.com/api/v1/services/aigc/video-generation/video-synthesis''
           ''sk-test''
           \<lparr> model = ''wan2.6-t2v'', input = \<lparr> prompt = ''a cat'', img_url = None \<rparr>,
             parameters = \<lparr> resolution = ''720P'', duration = 5, prompt_extend = True,
                            audio = True \<rparr> \<rparr>,
         UpdateBar ''r1'' 50 ''Processing'' ''Generating video (this takes 1-5 minutes)...'',
         UpdateBar ''r1'' 50 ''Processing'' ''Generating video... (1/60)'',
         FetchPoll ''https://dashscope-intl.aliyuncs.com/api/v1/tasks/task-1'' ''sk-test'',
         Sleep 5000,
         UpdateBar ''r1'' 51 ''Processing'' ''Generating video... (2/60)'',
         FetchPoll ''https://dashscope-intl.aliyuncs.com/api/v1/tasks/task-1'' ''sk-test'',
         Sleep 5000,
         UpdateBar ''r1'' 52 ''Processing'' ''Generating video... (3/60)'',
         FetchPoll ''https://dashscope-intl.aliyuncs.com/api/v1/tasks/task-1'' ''sk-test'',
         UpdateBar ''r1'' 90 ''Processing'' ''Downloading video...'',
         FetchVideo ''https://cdn.example/v.mp4'',
         UpdateBar ''r1'' 95 ''Success'' ''Video generation completed''])"
  by (simp add: run_eval)

section \<open>The claims\<close>

text \<open>
  The claims about polling are stated for \<open>pollWanTask\<close>; \<open>callWanAlibabaAPI\<close> has no
  handler around it, so the caller gets its error unchanged (\<open>run_poll_result\<close>).
\<close>

subsection \<open>C1: transport errors of a poll\<close>

text \<open>
  C1 (the part that the code does not do): a poll whose \<open>fetch\<close> rejects with a network
  error is not treated as pending. The exception leaves \<open>pollTaskOnce\<close> and
  \<open>pollWanTask\<close>, which have no handler, and the job ends on that attempt: in the world
  whose first poll is rejected and whose later polls would succeed, the job ends after one
  poll request with the network error (in general: \<open>poll_rejected_stops\<close>). The other
  parts of the claim hold: a 4xx answer ends the job on that attempt
  (\<open>poll_4xx_stops\<close>), a 5xx answer counts as one pending attempt and the loop goes on
  (\<open>poll_5xx_continues\<close>).
\<close>

theorem network_error_escapes:
  "pollWanTask offline_world ''task-1'' ''sk-test'' ''r1''
     = (Inl (OtherError ''fetch failed''),
        [UpdateBar ''r1'' 50 ''Processing'' ''Generating video... (1/60)'',
         FetchPoll ''https://dashscope-intl.aliyuncs.com/api/v1/tasks/task-1'' ''sk-test''])"
  by (simp add: pollWanTask_def pollWanTask_loop.simps offline_world_def poll_reply_def example_world_def pollTaskOnce_def Let_def ok_def
        toUpperCase_def upper_char_def truthy_def or_str_def
      POLL_MAX_ATTEMPTS_def DASHSCOPE_API_BASE_def progressPercent_def string_of_nat.simps digit_char_def)

subsection \<open>C2: the time-out\<close>

text \<open>
  C2: when every one of the \<open>POLL_MAX_ATTEMPTS\<close> (60) poll attempts comes back pending,
  the job ends with the time-out error of status 504, and exactly 60 poll requests were
  made: there is no 61st.
\<close>

theorem poll_timeout:
  assumes "\<forall>j. 1 \<le> j \<and> j \<le> POLL_MAX_ATTEMPTS \<longrightarrow>
             fst (pollTaskOnce w (DASHSCOPE_API_BASE @ ''/tasks/'' @ taskId) apiKey j requestId) = Inr Pending"
  shows "fst (pollWanTask w taskId apiKey requestId)
           = Inl (HttpError ''Video generation timed out after 5 minutes'' 504)
       \<and> poll_calls (snd (pollWanTask w taskId apiKey requestId)) = POLL_MAX_ATTEMPTS
       \<and> POLL_MAX_ATTEMPTS = 60"
  using loop_all_pending[OF assms] unfolding pollWanTask_def
  by (simp only: POLL_MAX_ATTEMPTS_def simp_thms)

text \<open>In the world whose every poll answers \<open>RUNNING\<close>, all 60 attempts are pending.\<close>

theorem poll_timeout_witness:
  "fst (pollWanTask running_world ''task-1'' ''sk-test'' ''r1'')
     = Inl (HttpError ''Video generation timed out after 5 minutes'' 504)
   \<and> poll_calls (snd (pollWanTask running_world ''task-1'' ''sk-test'' ''r1'')) = 60"
proof -
  have h: "\<forall>j. 1 \<le> j \<and> j \<le> POLL_MAX_ATTEMPTS \<longrightarrow>
      fst (pollTaskOnce running_world (DASHSCOPE_API_BASE @ ''/tasks/'' @ ''task-1'') ''sk-test'' j ''r1'')
        = Inr Pending"
    by (simp add: running_world_def poll_reply_def example_world_def pollTaskOnce_def Let_def
        ok_def toUpperCase_def upper_char_def truthy_def)
  show ?thesis
    using poll_timeout[OF h] by simp
qed

subsection \<open>C3: the duration is clamped\<close>

text \<open>
  C3 as stated fails at the duration 0: it is below the minimum, and what is submitted is
  the default 5, not the minimum 2.
\<close>

theorem zero_duration_cex:
  "p_duration (example_request \<lparr> p_duration := Some 0 \<rparr>) = Some 0
   \<and> (0::int) < MIN_DURATION_SECONDS
   \<and> vp_durationSeconds
       (prepareVideoParameters example_world (example_request \<lparr> p_duration := Some 0 \<rparr>)) = 5
   \<and> (5::int) \<noteq> MIN_DURATION_SECONDS
   \<and> snd (callWanAPI example_world ''a cat'' (example_request \<lparr> p_duration := Some 0 \<rparr>) ''r1'') ! 2
       = FetchSubmit
           ''https://dashscope-intl.aliyuncs.com/api/v1/services/aigc/video-generation/video-synthesis''
           ''sk-test''
           \<lparr> model = ''wan2.6-t2v'', input = \<lparr> prompt = ''a cat'', img_url = None \<rparr>,
             parameters = \<lparr> resolution = ''720P'', duration = 5, prompt_extend = True,
                            audio = True \<rparr> \<rparr>"
  by (simp add: run_eval)

text \<open>
  C3, amended: a requested duration other than 0 is clamped into [2, 15]: a value below 2
  becomes 2, a value above 15 becomes 15, a value inside passes unchanged, and that is
  the duration of every request body that the run submits. No duration is rejected: when
  the API key is there and the image, if any, could be downloaded, the run submits.
\<close>

theorem duration_clamped:
  assumes "p_duration sp = Some d" "d \<noteq> 0"
  shows "vp_durationSeconds (prepareVideoParameters w sp)
           = (if d < MIN_DURATION_SECONDS then MIN_DURATION_SECONDS
              else if MAX_DURATION_SECONDS < d then MAX_DURATION_SECONDS else d)
       \<and> MIN_DURATION_SECONDS = 2 \<and> MAX_DURATION_SECONDS = 15
       \<and> (\<forall>url key rb. FetchSubmit url key rb \<in> set (snd (callWanAPI w p sp rid))
             \<longrightarrow> duration (parameters rb)
                   = (if d < MIN_DURATION_SECONDS then MIN_DURATION_SECONDS
                      else if MAX_DURATION_SECONDS < d then MAX_DURATION_SECONDS else d))
       \<and> (truthy (DASHSCOPE_API_KEY w)
            \<and> (truthy (extractFirstImage (p_image sp)) \<longrightarrow>
                 (\<exists>x. downloadImageAsBase64 w (the (extractFirstImage (p_image sp))) = Inr x))
          \<longrightarrow> (\<exists>url key rb. FetchSubmit url key rb \<in> set (snd (callWanAPI w p sp rid))))"
proof -
  have raw: "rawDuration sp = d"
    using assms by (simp add: rawDuration_def)
  have d: "vp_durationSeconds (prepareVideoParameters w sp)
           = (if d < MIN_DURATION_SECONDS then MIN_DURATION_SECONDS
              else if MAX_DURATION_SECONDS < d then MAX_DURATION_SECONDS else d)"
    by (simp add: prepared_duration raw MIN_DURATION_SECONDS_def MAX_DURATION_SECONDS_def)
  have sub: "\<forall>url key rb. FetchSubmit url key rb \<in> set (snd (callWanAPI w p sp rid))
             \<longrightarrow> duration (parameters rb) = vp_durationSeconds (prepareVideoParameters w sp)"
    using run_events[of _ _ _ w p sp rid] by (simp add: callWanAPI_def)
  have go: "truthy (DASHSCOPE_API_KEY w)
            \<and> (truthy (extractFirstImage (p_image sp)) \<longrightarrow>
                 (\<exists>x. downloadImageAsBase64 w (the (extractFirstImage (p_image sp))) = Inr x))
          \<longrightarrow> (\<exists>url key rb. FetchSubmit url key rb \<in> set (snd (callWanAPI w p sp rid)))"
    using run_submits[of w sp p rid] by (simp add: callWanAPI_def)
  show ?thesis
    using sub go unfolding d by (simp add: MIN_DURATION_SECONDS_def MAX_DURATION_SECONDS_def)
qed

text \<open>The scenario: a requested duration of 1 is submitted as 2.\<close>

theorem duration_clamped_witness:
  "vp_durationSeconds
     (prepareVideoParameters example_world (example_request \<lparr> p_duration := Some 1 \<rparr>)) = 2
   \<and> (\<exists>url key rb.
         FetchSubmit url key rb
           \<in> set (snd (callWanAPI example_world ''a cat''
                         (example_request \<lparr> p_duration := Some 1 \<rparr>) ''r1''))
         \<and> duration (parameters rb) = 2)"
proof -
  let ?sp = "example_request \<lparr> p_duration := Some 1 \<rparr>"
  have h1: "p_duration ?sp = Some 1" by simp
  have h2: "(1::int) \<noteq> 0" by simp
  have key: "truthy (DASHSCOPE_API_KEY example_world)"
    by (simp add: example_world_def truthy_def)
  have img: "truthy (extractFirstImage (p_image ?sp)) \<longrightarrow>
           (\<exists>x. downloadImageAsBase64 example_world (the (extractFirstImage (p_image ?sp))) = Inr x)"
    by (simp add: example_request_def extractFirstImage_def truthy_def)
  note inst = duration_clamped[OF h1 h2, of example_world "''a cat''" "''r1''"]
  have d: "vp_durationSeconds (prepareVideoParameters example_world ?sp) = 2"
    using inst by simp
  obtain url key rb where
    m: "FetchSubmit url key rb \<in> set (snd (callWanAPI example_world ''a cat'' ?sp ''r1''))"
    using inst key img by blast
  have "duration (parameters rb) = 2"
    using inst m by simp
  then show ?thesis
    using d m by blast
qed

subsection \<open>C4: the duration of the result\<close>




subsection \<open>C5: success without a video URL\<close>

text \<open>
  C5: a poll answer whose task status is \<open>SUCCEEDED\<close> but which has no video URL (absent
  or empty) makes the poll throw the error ``No video URL in completed response'' with
  status 500, and the job ends with that error at that attempt: no result is returned.
\<close>

theorem succeeded_without_url:
  assumes "1 \<le> n" "n \<le> POLL_MAX_ATTEMPTS"
    and "\<forall>j. 1 \<le> j \<and> j < n \<longrightarrow>
           fst (pollTaskOnce w (DASHSCOPE_API_BASE @ ''/tasks/'' @ taskId) apiKey j requestId)
             = Inr Pending"
    and "fetchPoll w n (DASHSCOPE_API_BASE @ ''/tasks/'' @ taskId) apiKey = Response r"
    and "ok r" "body r = Inr data"
    and "map_option toUpperCase (Option.bind (r_output data) task_status) = Some ''SUCCEEDED''"
    and "\<not> truthy (Option.bind (r_output data) video_url)"
  shows "fst (pollTaskOnce w (DASHSCOPE_API_BASE @ ''/tasks/'' @ taskId) apiKey n requestId)
           = Inl (HttpError ''No video URL in completed response'' 500)
       \<and> fst (pollWanTask w taskId apiKey requestId)
           = Inl (HttpError ''No video URL in completed response'' 500)
       \<and> poll_calls (snd (pollWanTask w taskId apiKey requestId)) = n"
proof -
  have once: "fst (pollTaskOnce w (DASHSCOPE_API_BASE @ ''/tasks/'' @ taskId) apiKey n requestId)
           = Inl (HttpError ''No video URL in completed response'' 500)"
    by (rule pollTaskOnce_no_url[OF assms(4,5,6,7,8)])
  show ?thesis
    using once loop_error_at[OF assms(1,2,3) once] unfolding pollWanTask_def by simp
qed

text \<open>The task runs for two polls and then reports success without a URL.\<close>

theorem succeeded_without_url_witness:
  "fst (pollWanTask no_url_world ''task-1'' ''sk-test'' ''r1'')
     = Inl (HttpError ''No video URL in completed response'' 500)
   \<and> poll_calls (snd (pollWanTask no_url_world ''task-1'' ''sk-test'' ''r1'')) = 3"
proof -
  let ?u = "DASHSCOPE_API_BASE @ ''/tasks/'' @ ''task-1''"
  let ?data = "\<lparr> r_output = Some \<lparr> task_id = Some ''task-1'', task_status = Some ''SUCCEEDED'',
                     video_url = None, out_code = None, out_message = None \<rparr>,
                   r_request_id = None,
                   r_usage = Some \<lparr> video_count = Some 1, video_duration = Some 7 \<rparr>,
                   r_code = None, r_message = None \<rparr>"
  let ?r = "\<lparr> status = 200, body_text = Inr [], body = Inr ?data \<rparr>"
  have h1: "(1::nat) \<le> 3" by simp
  have h2: "3 \<le> POLL_MAX_ATTEMPTS" by (simp add: POLL_MAX_ATTEMPTS_def)
  have h3: "\<forall>j. 1 \<le> j \<and> j < 3 \<longrightarrow>
           fst (pollTaskOnce no_url_world ?u ''sk-test'' j ''r1'') = Inr Pending"
    by (simp add: no_url_world_def poll_reply_def example_world_def pollTaskOnce_def Let_def ok_def
        toUpperCase_def upper_char_def truthy_def or_str_def)
  have h4: "fetchPoll no_url_world 3 ?u ''sk-test'' = Response ?r"
    by (simp add: no_url_world_def example_world_def poll_reply_def)
  have h5: "ok ?r" by (simp add: ok_def)
  have h6: "body ?r = Inr ?data" by simp
  have h7: "map_option toUpperCase (Option.bind (r_output ?data) task_status) = Some ''SUCCEEDED''"
    by (simp add: toUpperCase_def upper_char_def)
  have h8: "\<not> truthy (Option.bind (r_output ?data) video_url)"
    by (simp add: truthy_def)
  show ?thesis
    using succeeded_without_url[OF h1 h2 h3 h4 h5 h6 h7 h8] by simp
qed

subsection \<open>C6: failed and canceled tasks\<close>

text \<open>
  C6 as stated fails for \<open>CANCELED\<close>: the message of the error is the fixed text
  ``Video generation was canceled'', whatever message the provider sent with the status.
\<close>

theorem canceled_message_cex:
  "fst (pollWanTask canceled_world ''task-1'' ''sk-test'' ''r1'')
     = Inl (HttpError ''Video generation was canceled'' 500)
   \<and> \<not> sublist ''quota exceeded'' ''Video generation was canceled''"
  by (simp add: pollWanTask_def pollWanTask_loop.simps canceled_world_def poll_reply_def example_world_def pollTaskOnce_def Let_def ok_def
        toUpperCase_def upper_char_def truthy_def or_str_def
      POLL_MAX_ATTEMPTS_def DASHSCOPE_API_BASE_def progressPercent_def string_of_nat.simps digit_char_def
      sublist_code prefix_code)

text \<open>
  C6, amended: at a poll answer with status \<open>FAILED\<close> or \<open>CANCELED\<close> the job ends at
  once (no further poll request) with an error of status 500. For \<open>FAILED\<close> its message
  is the provider's \<open>output.message\<close>, else the top-level \<open>message\<close>, else ``Video
  generation failed''; for \<open>CANCELED\<close> it is the fixed text ``Video generation was
  canceled''.
\<close>

theorem failed_or_canceled_stops:
  assumes "1 \<le> n" "n \<le> POLL_MAX_ATTEMPTS"
    and "\<forall>j. 1 \<le> j \<and> j < n \<longrightarrow>
           fst (pollTaskOnce w (DASHSCOPE_API_BASE @ ''/tasks/'' @ taskId) apiKey j requestId)
             = Inr Pending"
    and "fetchPoll w n (DASHSCOPE_API_BASE @ ''/tasks/'' @ taskId) apiKey = Response r"
    and "ok r" "body r = Inr data"
    and "taskStatus = map_option toUpperCase (Option.bind (r_output data) task_status)"
    and "taskStatus = Some ''FAILED'' \<or> taskStatus = Some ''CANCELED''"
  shows "fst (pollWanTask w taskId apiKey requestId)
           = Inl (HttpError
                    (if taskStatus = Some ''FAILED''
                     then or_str (Option.bind (r_output data) out_message)
                            (or_str (r_message data) ''Video generation failed'')
                     else ''Video generation was canceled'') 500)
       \<and> poll_calls (snd (pollWanTask w taskId apiKey requestId)) = n
       \<and> (\<forall>m. taskStatus = Some ''FAILED''
              \<and> Option.bind (r_output data) out_message = Some m \<and> m \<noteq> []
            \<longrightarrow> fst (pollWanTask w taskId apiKey requestId) = Inl (HttpError m 500))"
proof -
  let ?u = "DASHSCOPE_API_BASE @ ''/tasks/'' @ taskId"
  let ?msg = "if taskStatus = Some ''FAILED''
              then or_str (Option.bind (r_output data) out_message)
                     (or_str (r_message data) ''Video generation failed'')
              else ''Video generation was canceled''"
  have once: "fst (pollTaskOnce w ?u apiKey n requestId) = Inr (Failed ?msg)"
  proof (cases "taskStatus = Some ''FAILED''")
    case True
    have st: "map_option toUpperCase (Option.bind (r_output data) task_status) = Some ''FAILED''"
      using assms(7) True by (simp only:)
    have "fst (pollTaskOnce w ?u apiKey n requestId)
            = Inr (Failed (or_str (Option.bind (r_output data) out_message)
                             (or_str (r_message data) ''Video generation failed'')))"
      by (rule pollTaskOnce_failed_status[OF assms(4,5,6) st])
    then show ?thesis by (simp only: True if_True simp_thms)
  next
    case False
    then have c: "taskStatus = Some ''CANCELED''" using assms(8) by simp
    have st: "map_option toUpperCase (Option.bind (r_output data) task_status) = Some ''CANCELED''"
      using assms(7) c by (simp only:)
    have "fst (pollTaskOnce w ?u apiKey n requestId) = Inr (Failed ''Video generation was canceled'')"
      by (rule pollTaskOnce_canceled[OF assms(4,5,6) st])
    then show ?thesis by (simp only: False if_False)
  qed
  have loop: "fst (pollWanTask w taskId apiKey requestId) = Inl (HttpError ?msg 500)
       \<and> poll_calls (snd (pollWanTask w taskId apiKey requestId)) = n"
    using loop_failed_at[OF assms(1,2,3) once] unfolding pollWanTask_def .
  show ?thesis
    using loop by (auto simp add: or_str_def truthy_def)
qed

text \<open>The scenario: the second poll reports \<open>FAILED\<close> with the message ``unsafe content''.\<close>

theorem failed_or_canceled_stops_witness:
  "fst (pollWanTask failed_world ''task-1'' ''sk-test'' ''r1'')
     = Inl (HttpError ''unsafe content'' 500)
   \<and> poll_calls (snd (pollWanTask failed_world ''task-1'' ''sk-test'' ''r1'')) = 2"
proof -
  let ?u = "DASHSCOPE_API_BASE @ ''/tasks/'' @ ''task-1''"
  let ?data = "\<lparr> r_output = Some \<lparr> task_id = Some ''task-1'', task_status = Some ''FAILED'',
                     video_url = None, out_code = None, out_message = Some ''unsafe content'' \<rparr>,
                   r_request_id = None,
                   r_usage = Some \<lparr> video_count = Some 1, video_duration = None \<rparr>,
                   r_code = None, r_message = None \<rparr>"
  let ?r = "\<lparr> status = 200, body_text = Inr [], body = Inr ?data \<rparr>"
  have h1: "(1::nat) \<le> 2" by simp
  have h2: "2 \<le> POLL_MAX_ATTEMPTS" by (simp add: POLL_MAX_ATTEMPTS_def)
  have h3: "\<forall>j. 1 \<le> j \<and> j < 2 \<longrightarrow>
           fst (pollTaskOnce failed_world ?u ''sk-test'' j ''r1'') = Inr Pending"
    by (simp add: failed_world_def poll_reply_def example_world_def pollTaskOnce_def Let_def ok_def
        toUpperCase_def upper_char_def truthy_def or_str_def)
  have h4: "fetchPoll failed_world 2 ?u ''sk-test'' = Response ?r"
    by (simp add: failed_world_def example_world_def poll_reply_def)
  have h5: "ok ?r" by (simp add: ok_def)
  have h6: "body ?r = Inr ?data" by simp
  have h7: "Some ''FAILED'' = map_option toUpperCase (Option.bind (r_output ?data) task_status)"
    by (simp add: toUpperCase_def upper_char_def)
  have h8: "Some ''FAILED'' = Some ''FAILED'' \<or> Some ''FAILED'' = Some ''CANCELED''" by simp
  show ?thesis
    using failed_or_canceled_stops[OF h1 h2 h3 h4 h5 h6 h7 h8]
    by (simp add: or_str_def truthy_def)
qed

subsection \<open>C7: progress\<close>

text \<open>
  C7: in every successful run the percentages given to the progress bar never decrease,
  and the last one, 95 with the phase ``Success'', is given only after the download has
  succeeded: the video was fetched with an ok response and its body was read, and these
  bytes are the buffer of the result. Every percentage before it is at most 90.
\<close>

theorem progress_non_decreasing:
  assumes "fst (callWanAPI w p sp rid) = Inr res"
  shows "sorted (percentages (snd (callWanAPI w p sp rid)))
       \<and> (\<exists>pre v r.
             snd (callWanAPI w p sp rid)
               = pre @ [FetchVideo v,
                        UpdateBar rid 95 ''Success'' ''Video generation completed'']
           \<and> fetchVideo w v = Response r \<and> ok r \<and> body r = Inr (buffer res)
           \<and> (\<forall>q \<in> set (percentages pre). q \<le> 90))"
proof -
  obtain tr where run: "callWanAlibabaAPI w p sp rid = (Inr res, tr)"
    using assms by (cases "callWanAlibabaAPI w p sp rid") (simp add: callWanAPI_def)
  obtain taskId buf d ev3 hd_evs where
    poll: "pollWanTask w taskId (the (DASHSCOPE_API_KEY w)) rid = (Inr (buf, d), ev3)"
    and res: "res = createVideoResult buf (prepareVideoParameters w sp) d"
    and tr: "tr = hd_evs @ ev3" and hd_evs: "percentages hd_evs = [35, 45, 50]"
    using run_success_pre[OF run] by blast
  have buf: "buffer res = buf"
    by (simp add: res createVideoResult_def Let_def)
  let ?u = "DASHSCOPE_API_BASE @ ''/tasks/'' @ taskId"
  let ?k = "the (DASHSCOPE_API_KEY w)"
  have ev3: "ev3 = snd (pollWanTask_loop w ?u ?k rid 1)"
    and ok3: "fst (pollWanTask_loop w ?u ?k rid 1) = Inr (buf, d)"
    using poll by (simp_all add: pollWanTask_def)
  have sorted3: "sorted (percentages ev3)"
    and low3: "\<forall>q \<in> set (percentages ev3). 50 \<le> q"
    using loop_percentages[of w ?u ?k rid 1] progressPercent_bounds[of 1]
    unfolding ev3 by auto
  obtain pre v r where
    shape: "ev3 = pre @ [UpdateBar rid 90 ''Processing'' ''Downloading video...'', FetchVideo v,
                    UpdateBar rid 95 ''Success'' ''Video generation completed'']"
    and pre: "\<forall>q \<in> set (percentages pre). q \<le> 90"
    and fv: "fetchVideo w v = Response r" "ok r" "body r = Inr (buffer res)"
    using loop_success[OF ok3] unfolding ev3 buf by blast
  let ?pre = "hd_evs @ pre @ [UpdateBar rid 90 ''Processing'' ''Downloading video...'']"
  have s: "sorted (percentages tr)"
    using sorted3 low3 by (auto simp add: tr percentages_append hd_evs sorted_append)
  have sh: "tr = ?pre @ [FetchVideo v, UpdateBar rid 95 ''Success'' ''Video generation completed'']"
    by (simp add: tr shape)
  have le: "\<forall>q \<in> set (percentages ?pre). q \<le> 90"
    using pre by (auto simp add: percentages_append hd_evs)
  have "snd (callWanAPI w p sp rid) = tr"
    using run by (simp add: callWanAPI_def)
  then show ?thesis
    using s sh le fv by (simp only:) blast
qed

theorem progress_non_decreasing_witness:
  "sorted (percentages (snd (callWanAPI example_world ''a cat'' example_request ''r1'')))
   \<and> (\<exists>pre v r.
         snd (callWanAPI example_world ''a cat'' example_request ''r1'')
           = pre @ [FetchVideo v,
                    UpdateBar ''r1'' 95 ''Success'' ''Video generation completed'']
       \<and> fetchVideo example_world v = Response r \<and> ok r \<and> body r = Inr ''VIDEO'')"
proof -
  have h: "fst (callWanAPI example_world ''a cat'' example_request ''r1'')
     = Inr \<lparr> buffer = ''VIDEO'', mimeType = ''video/mp4'', durationSeconds = 5,
             trackingData = \<lparr> actualModel = ''wan'',
               tracked_usage = \<lparr> completionVideoSeconds = 7,
                                 completionAudioSeconds = 7 \<rparr> \<rparr> \<rparr>"
    by (simp add: example_run)
  have "sorted (percentages (snd (callWanAPI example_world ''a cat'' example_request ''r1'')))
   \<and> (\<exists>pre v r.
         snd (callWanAPI example_world ''a cat'' example_request ''r1'')
           = pre @ [FetchVideo v,
                    UpdateBar ''r1'' 95 ''Success'' ''Video generation completed'']
       \<and> fetchVideo example_world v = Response r \<and> ok r
       \<and> body r = Inr (buffer \<lparr> buffer = ''VIDEO'', mimeType = ''video/mp4'',
             durationSeconds = 5,
             trackingData = \<lparr> actualModel = ''wan'',
               tracked_usage = \<lparr> completionVideoSeconds = 7,
                                 completionAudioSeconds = 7 \<rparr> \<rparr> \<rparr>))"
    using progress_non_decreasing[OF h] by blast
  then show ?thesis by simp
qed

subsection \<open>C8: the scheme of the image URI\<close>


subsection \<open>C9: the first image, downloaded and re-encoded\<close>

text \<open>
  C9: when the image of the request is the non-empty string \<open>u\<close>, or a list whose first
  element is the non-empty string \<open>u\<close>, then only \<open>u\<close> is used and it is downloaded and
  re-encoded before the request body is submitted: the call of \<open>downloadImageAsBase64\<close>
  on \<open>u\<close> is the first action after the first progress update, no other URI is ever
  downloaded, the body of every submission carries the base64 \<open>data:\<close> URI made from
  that download, and when the download fails nothing is submitted. The rest of a list
  plays no part: the run with the list is the run with its first element alone.
\<close>

theorem first_image_only:
  assumes "truthy (DASHSCOPE_API_KEY w)"
    and "p_image sp = Some (Single u) \<or> p_image sp = Some (Many (u # us))"
    and "u \<noteq> []"
  shows "take 2 (snd (callWanAPI w p sp rid))
           = [UpdateBar rid 35 ''Processing''
                ''Starting video generation with Wan 2.6 (I2V)...'',
              DownloadImageAsBase64 u]
       \<and> (\<forall>v. DownloadImageAsBase64 v \<in> set (snd (callWanAPI w p sp rid)) \<longrightarrow> v = u)
       \<and> (\<forall>url key rb. FetchSubmit url key rb \<in> set (snd (callWanAPI w p sp rid)) \<longrightarrow>
             (\<exists>base64 mime. downloadImageAsBase64 w u = Inr (base64, mime)
                \<and> img_url (input rb) = Some (''data:'' @ mime @ '';base64,'' @ base64)))
       \<and> (\<forall>e. downloadImageAsBase64 w u = Inl e \<longrightarrow>
             callWanAPI w p sp rid
               = (Inl e, [UpdateBar rid 35 ''Processing''
                            ''Starting video generation with Wan 2.6 (I2V)...'',
                          DownloadImageAsBase64 u]))
       \<and> (\<forall>base64 mime. downloadImageAsBase64 w u = Inr (base64, mime) \<longrightarrow>
             (\<exists>res rest.
                callWanAPI w p sp rid
                  = (res, [UpdateBar rid 35 ''Processing''
                             ''Starting video generation with Wan 2.6 (I2V)...'',
                           DownloadImageAsBase64 u,
                           UpdateBar rid 45 ''Processing'' ''Initiating video generation...'',
                           FetchSubmit
                             (DASHSCOPE_API_BASE
                                @ ''/services/aigc/video-generation/video-synthesis'')
                             (the (DASHSCOPE_API_KEY w))
                             \<lparr> model = WAN_I2V_MODEL,
                               input = \<lparr> prompt = p,
                                         img_url = Some (''data:'' @ mime @ '';base64,''
                                                           @ base64) \<rparr>,
                               parameters =
                                 \<lparr> resolution = vp_resolution (prepareVideoParameters w sp),
                                   duration = vp_durationSeconds (prepareVideoParameters w sp),
                                   prompt_extend = True,
                                   audio = vp_generateAudio (prepareVideoParameters w sp) \<rparr> \<rparr>]
                          @ rest)
              \<and> (\<forall>e \<in> set rest. loop_event e)))
       \<and> callWanAPI w p (sp \<lparr> p_image := Some (Many (u # us)) \<rparr>) rid
           = callWanAPI w p (sp \<lparr> p_image := Some (Single u) \<rparr>) rid"
proof -
  have first: "extractFirstImage (p_image sp) = Some u"
    using assms(2,3) by (auto simp add: extractFirstImage_def)
  have only: "\<forall>v. DownloadImageAsBase64 v \<in> set (snd (callWanAPI w p sp rid)) \<longrightarrow> v = u"
    using run_events[of _ _ _ w p sp rid] first by (simp add: callWanAPI_def)
  have failed: "\<forall>e. downloadImageAsBase64 w u = Inl e \<longrightarrow>
             callWanAPI w p sp rid
               = (Inl e, [UpdateBar rid 35 ''Processing''
                            ''Starting video generation with Wan 2.6 (I2V)...'',
                          DownloadImageAsBase64 u])"
    using run_image_failed[OF assms(1) first assms(3)] by (simp add: callWanAPI_def)
  have returned: "\<forall>base64 mime. downloadImageAsBase64 w u = Inr (base64, mime) \<longrightarrow>
             (\<exists>res rest.
                callWanAPI w p sp rid
                  = (res, [UpdateBar rid 35 ''Processing''
                             ''Starting video generation with Wan 2.6 (I2V)...'',
                           DownloadImageAsBase64 u,
                           UpdateBar rid 45 ''Processing'' ''Initiating video generation...'',
                           FetchSubmit
                             (DASHSCOPE_API_BASE
                                @ ''/services/aigc/video-generation/video-synthesis'')
                             (the (DASHSCOPE_API_KEY w))
                             \<lparr> model = WAN_I2V_MODEL,
                               input = \<lparr> prompt = p,
                                         img_url = Some (''data:'' @ mime @ '';base64,''
                                                           @ base64) \<rparr>,
                               parameters =
                                 \<lparr> resolution = vp_resolution (prepareVideoParameters w sp),
                                   duration = vp_durationSeconds (prepareVideoParameters w sp),
                                   prompt_extend = True,
                                   audio = vp_generateAudio (prepareVideoParameters w sp) \<rparr> \<rparr>]
                          @ rest)
              \<and> (\<forall>e \<in> set rest. loop_event e))"
    using run_image_ok[OF assms(1) first assms(3)] by (simp add: callWanAPI_def)
  have start: "take 2 (snd (callWanAPI w p sp rid))
           = [UpdateBar rid 35 ''Processing''
                ''Starting video generation with Wan 2.6 (I2V)...'',
              DownloadImageAsBase64 u]"
  proof (cases "downloadImageAsBase64 w u")
    case (Inl e)
    then show ?thesis using failed by simp
  next
    case (Inr bm)
    obtain base64 mime where "bm = (base64, mime)" by (cases bm)
    then show ?thesis using returned Inr by fastforce
  qed
  have submit: "\<forall>url key rb. FetchSubmit url key rb \<in> set (snd (callWanAPI w p sp rid)) \<longrightarrow>
             (\<exists>base64 mime. downloadImageAsBase64 w u = Inr (base64, mime)
                \<and> img_url (input rb) = Some (''data:'' @ mime @ '';base64,'' @ base64))"
  proof (cases "downloadImageAsBase64 w u")
    case (Inl e)
    then show ?thesis using failed by simp
  next
    case (Inr bm)
    obtain base64 mime where bm: "bm = (base64, mime)" by (cases bm)
    obtain res rest where
      run: "callWanAPI w p sp rid
                  = (res, [UpdateBar rid 35 ''Processing''
                             ''Starting video generation with Wan 2.6 (I2V)...'',
                           DownloadImageAsBase64 u,
                           UpdateBar rid 45 ''Processing'' ''Initiating video generation...'',
                           FetchSubmit
                             (DASHSCOPE_API_BASE
                                @ ''/services/aigc/video-generation/video-synthesis'')
                             (the (DASHSCOPE_API_KEY w))
                             \<lparr> model = WAN_I2V_MODEL,
                               input = \<lparr> prompt = p,
                                         img_url = Some (''data:'' @ mime @ '';base64,''
                                                           @ base64) \<rparr>,
                               parameters =
                                 \<lparr> resolution = vp_resolution (prepareVideoParameters w sp),
                                   duration = vp_durationSeconds (prepareVideoParameters w sp),
                                   prompt_extend = True,
                                   audio = vp_generateAudio (prepareVideoParameters w sp) \<rparr> \<rparr>]
                          @ rest)"
      and rest: "\<forall>e \<in> set rest. loop_event e"
      using returned Inr bm by blast
    show ?thesis
    proof (intro allI impI)
      fix url key rb
      assume m: "FetchSubmit url key rb \<in> set (snd (callWanAPI w p sp rid))"
      have "FetchSubmit url key rb \<notin> set rest"
        using rest by auto
      then have "img_url (input rb) = Some (''data:'' @ mime @ '';base64,'' @ base64)"
        using m unfolding run by auto
      then show "\<exists>base64 mime. downloadImageAsBase64 w u = Inr (base64, mime)
                \<and> img_url (input rb) = Some (''data:'' @ mime @ '';base64,'' @ base64)"
        using Inr bm by blast
    qed
  qed
  have same: "callWanAPI w p (sp \<lparr> p_image := Some (Many (u # us)) \<rparr>) rid
           = callWanAPI w p (sp \<lparr> p_image := Some (Single u) \<rparr>) rid"
    using first_of_list[where w = w and p = p and sp = sp and x = u and xs = us and rid = rid]
    by (simp add: callWanAPI_def)
  show ?thesis
    using start only submit failed returned same by blast
qed

text \<open>
  A list of two images, in the example world, whose download gives the base64 text
  \<open>aGVsbG8=\<close> of type \<open>image/png\<close>: the first one is downloaded and submitted.
\<close>

theorem first_image_only_witness:
  "take 2 (snd (callWanAPI example_world ''a cat'' two_images_request ''r1''))
     = [UpdateBar ''r1'' 35 ''Processing''
          ''Starting video generation with Wan 2.6 (I2V)...'',
        DownloadImageAsBase64 ''https://example.com/a.png'']
   \<and> (\<exists>res rest.
         callWanAPI example_world ''a cat'' two_images_request ''r1''
           = (res, [UpdateBar ''r1'' 35 ''Processing''
                      ''Starting video generation with Wan 2.6 (I2V)...'',
                    DownloadImageAsBase64 ''https://example.com/a.png'',
                    UpdateBar ''r1'' 45 ''Processing'' ''Initiating video generation...'',
                    FetchSubmit
                      (DASHSCOPE_API_BASE @ ''/services/aigc/video-generation/video-synthesis'')
                      (the (DASHSCOPE_API_KEY example_world))
                      \<lparr> model = WAN_I2V_MODEL,
                        input = \<lparr> prompt = ''a cat'',
                                  img_url = Some (''data:'' @ ''image/png'' @ '';base64,''
                                                    @ ''aGVsbG8='') \<rparr>,
                        parameters =
                          \<lparr> resolution =
                              vp_resolution (prepareVideoParameters example_world two_images_request),
                            duration =
                              vp_durationSeconds (prepareVideoParameters example_world two_images_request),
                            prompt_extend = True,
                            audio =
                              vp_generateAudio (prepareVideoParameters example_world two_images_request) \<rparr> \<rparr>]
                   @ rest))"
proof -
  have h1: "truthy (DASHSCOPE_API_KEY example_world)"
    by (simp add: example_world_def truthy_def)
  have h2: "p_image two_images_request = Some (Single ''https://example.com/a.png'')
      \<or> p_image two_images_request
          = Some (Many (''https://example.com/a.png'' # [''https://example.com/b.png'']))"
    by (simp add: two_images_request_def example_request_def)
  have h3: "''https://example.com/a.png'' \<noteq> []" by simp
  have dl: "downloadImageAsBase64 example_world ''https://example.com/a.png''
          = Inr (''aGVsbG8='', ''image/png'')"
    by (simp add: example_world_def)
  note inst = first_image_only[OF h1 h2 h3, where p = "''a cat''" and rid = "''r1''"]
  show ?thesis
    using inst dl by blast
qed

subsection \<open>C10: the default duration\<close>

text \<open>
  C10: when the duration of the request is absent or 0, the duration submitted is the
  default of 5 seconds, not the minimum of 2: the default is put in before the clamp.
\<close>

theorem default_duration:
  assumes "p_duration sp = None \<or> p_duration sp = Some 0"
  shows "vp_durationSeconds (prepareVideoParameters w sp) = DEFAULT_DURATION_SECONDS
       \<and> DEFAULT_DURATION_SECONDS = 5
       \<and> DEFAULT_DURATION_SECONDS \<noteq> MIN_DURATION_SECONDS
       \<and> (\<forall>url key rb. FetchSubmit url key rb \<in> set (snd (callWanAPI w p sp rid))
             \<longrightarrow> duration (parameters rb) = 5)"
proof -
  have raw: "rawDuration sp = 5"
    using assms by (auto simp add: rawDuration_def DEFAULT_DURATION_SECONDS_def)
  have d: "vp_durationSeconds (prepareVideoParameters w sp) = 5"
    by (simp add: prepared_duration raw MIN_DURATION_SECONDS_def MAX_DURATION_SECONDS_def)
  show ?thesis
    using d run_events[of _ _ _ w p sp rid]
    by (simp add: callWanAPI_def DEFAULT_DURATION_SECONDS_def MIN_DURATION_SECONDS_def)
qed

theorem default_duration_witness:
  "vp_durationSeconds
     (prepareVideoParameters example_world (example_request \<lparr> p_duration := None \<rparr>)) = 5
   \<and> (\<exists>url key rb.
         FetchSubmit url key rb
           \<in> set (snd (callWanAPI example_world ''a cat''
                         (example_request \<lparr> p_duration := None \<rparr>) ''r1''))
         \<and> duration (parameters rb) = 5)"
proof -
  let ?sp = "example_request \<lparr> p_duration := None \<rparr>"
  have h: "p_duration ?sp = None \<or> p_duration ?sp = Some 0" by simp
  have key: "truthy (DASHSCOPE_API_KEY example_world)"
    by (simp add: example_world_def truthy_def)
  have img: "truthy (extractFirstImage (p_image ?sp)) \<longrightarrow>
           (\<exists>x. downloadImageAsBase64 example_world (the (extractFirstImage (p_image ?sp))) = Inr x)"
    by (simp add: example_request_def extractFirstImage_def truthy_def)
  have sub: "\<exists>url key rb. FetchSubmit url key rb
               \<in> set (snd (callWanAPI example_world ''a cat'' ?sp ''r1''))"
    using run_submits[OF key img] by (simp add: callWanAPI_def)
  note inst = default_duration[OF h, of example_world "''a cat''" "''r1''"]
  have d: "vp_durationSeconds (prepareVideoParameters example_world ?sp) = 5"
    using inst by simp
  obtain url key rb where
    m: "FetchSubmit url key rb \<in> set (snd (callWanAPI example_world ''a cat'' ?sp ''r1''))"
    using sub by blast
  have "duration (parameters rb) = 5"
    using inst m by blast
  then show ?thesis
    using d m by blast
qed

end
